theory Spec2Isabelle
  imports Complex_Main
begin

section \<open>Python values, errors and dictionaries\<close>

text \<open>
  The module \<^verbatim>\<open>odl/tomo/backends/astra_setup.py\<close> converts ODL geometries into the
  dictionaries, vector arrays and configuration aggregates of the ASTRA toolbox. Every
  \<^verbatim>\<open>raise\<close> of the module is a value \<open>Inl e\<close> of the result; the message of an
  exception is kept as the source writes it, before \<^verbatim>\<open>format\<close> fills its
  placeholders and without its single quotes. Floating-point numbers are values of a
  type variable \<open>'a\<close>: the module only moves them around, multiplies and negates
  them. A call into the backend is modelled by what it is called with: a function that
  ends with such a call returns the dictionary the backend builds from the arguments,
  or the call itself where the backend answers with a handle.
\<close>

datatype error =
    TypeError string
  | ValueError string
  | NotImplementedError string
  | IndexError
  | KeyError
  | UnknownFeature string

definition bindE :: "error + 'b \<Rightarrow> ('b \<Rightarrow> error + 'c) \<Rightarrow> error + 'c" where
  "bindE r f = (case r of Inl e \<Rightarrow> Inl e | Inr x \<Rightarrow> f x)"

text \<open>Subscription \<^verbatim>\<open>xs[i]\<close> with a non-negative literal index.\<close>

definition index :: "'b list \<Rightarrow> nat \<Rightarrow> error + 'b" where
  "index xs i = (if i < length xs then Inr (xs ! i) else Inl IndexError)"

text \<open>
  The values stored in the dictionaries that go to the backend. A dictionary is an
  association list in insertion order; \<open>map_of\<close> reads a key.
\<close>

datatype 'a pyval =
    PyStr string
  | PyInt int
  | PyFloat 'a
  | PyArr "'a list"
  | PyMat "'a list list"
  | PyBool bool
  | PyDict "(string \<times> 'a pyval) list"

type_synonym 'a dict = "(string \<times> 'a pyval) list"

section \<open>Feature matrix\<close>

text \<open>
  A value of \<^verbatim>\<open>ASTRA_FEATURES\<close>: \<^verbatim>\<open>None\<close>, one requirement string, or a sequence
  of requirement strings that are OR-ed.
\<close>

datatype requirement = NoVersion | Req string | ReqAny "string list"

definition ASTRA_FEATURES :: "(string \<times> requirement) list" where
  "ASTRA_FEATURES =
    [(''anisotropic_voxels_2d'', NoVersion),
     (''anisotropic_voxels_3d'', Req ''>=1.8''),
     (''parallel2d_vec_geometry'', NoVersion),
     (''cone2d_density_weighting'', NoVersion),
     (''cone3d_hacky_density_weighting'', Req ''>=1.8''),
     (''cone3d_density_weighting'', NoVersion),
     (''par3d_det_mid_pt_perp_to_axis'', Req ''>=1.7.2''),
     (''gpulink'', NoVersion)]"

text \<open>
  The process-wide facts the module reads: the detected version string
  \<^verbatim>\<open>ASTRA_VERSION\<close>, and the test of setuptools whether a version meets one
  requirement string (\<open>meets version requirement\<close>), which is outside the repository.
\<close>

record env =
  ASTRA_VERSION :: string
  meets :: "string \<Rightarrow> string \<Rightarrow> bool"

text \<open>
  Modelled from the spec: \<^verbatim>\<open>odl.util.utility.pkg_supports\<close> is not among the sources.
  Section 4.1 of the specification: the feature is looked up in the matrix; a feature
  that is unsupported in any version gives false unconditionally; a constraint or a
  conjunction of constraints is evaluated on the detected version; of a disjunction one
  satisfied member is enough; a name that is not in the matrix fails.
\<close>

definition pkg_supports ::
  "(string \<Rightarrow> string \<Rightarrow> bool) \<Rightarrow> string \<Rightarrow> string \<Rightarrow> (string \<times> requirement) list
    \<Rightarrow> error + bool" where
  "pkg_supports sat feature pkg_version pkg_feat_dict =
    (case map_of pkg_feat_dict feature of
       None \<Rightarrow> Inl (UnknownFeature feature)
     | Some NoVersion \<Rightarrow> Inr False
     | Some (Req r) \<Rightarrow> Inr (sat pkg_version r)
     | Some (ReqAny rs) \<Rightarrow> Inr (list_ex (sat pkg_version) rs))"

definition astra_supports :: "env \<Rightarrow> string \<Rightarrow> error + bool" where
  "astra_supports e feature =
    pkg_supports (meets e) feature (ASTRA_VERSION e) ASTRA_FEATURES"

section \<open>Volume geometries\<close>

text \<open>
  What the module reads of a \<^verbatim>\<open>DiscreteLp\<close> and of its partition. The attributes are
  fields: the classes that compute them are outside this module.
\<close>

record 'a partition =
  shape :: "int list"
  min_pt :: "'a list"
  max_pt :: "'a list"
  cell_sides :: "'a list"
  has_isotropic_cells :: bool
  part_is_uniform :: bool

record 'a discrete_lp =
  is_uniform :: bool
  partition_lp :: "'a partition"
  lp_ndim :: int

datatype 'a discr_arg = DiscreteLpObj "'a discrete_lp" | NotDiscreteLp

text \<open>
  The backend's \<^verbatim>\<open>astra.create_vol_geom\<close>, as the comments of
  \<^verbatim>\<open>astra_volume_geometry\<close> describe it: six positional arguments
  \<^verbatim>\<open>(y, x, x_min, x_max, y_min, y_max)\<close> give the rows, the columns and the window of
  a 2D volume; nine give rows, columns, slices and the window in X, Y, Z of a 3D one.
  The keys are those of the comments; the positions are those of the call the comments
  quote (in the 3D comment the values listed for the window repeat \<^verbatim>\<open>z_max\<close>,
  \<^verbatim>\<open>y_min\<close> and \<^verbatim>\<open>x_min\<close>, which the 2D comment and the call contradict). The
  module calls the function in no other form.
\<close>

fun create_vol_geom :: "'a pyval list \<Rightarrow> 'a dict" where
  "create_vol_geom [r, c, x0, x1, y0, y1] =
    [(''GridRowCount'', r), (''GridColCount'', c),
     (''WindowMinX'', x0), (''WindowMaxX'', x1),
     (''WindowMinY'', y0), (''WindowMaxY'', y1)]"
| "create_vol_geom [r, c, s, x0, x1, y0, y1, z0, z1] =
    [(''GridRowCount'', r), (''GridColCount'', c), (''GridSliceCount'', s),
     (''WindowMinX'', x0), (''WindowMaxX'', x1),
     (''WindowMinY'', y0), (''WindowMaxY'', y1),
     (''WindowMinZ'', z0), (''WindowMaxZ'', z1)]"
| "create_vol_geom args = []"

text \<open>
  \<^verbatim>\<open>not partition.has_isotropic_cells and not astra_supports(feature)\<close>: the
  second operand is evaluated only when the first holds.
\<close>

definition anisotropic_unsupported :: "env \<Rightarrow> 'a partition \<Rightarrow> string \<Rightarrow> error + bool" where
  "anisotropic_unsupported e p feature =
    (if has_isotropic_cells p then Inr False
     else bindE (astra_supports e feature) (\<lambda>b. Inr (\<not> b)))"

text \<open>
  A subscript out of range raises \<^verbatim>\<open>IndexError\<close> while the arguments of
  \<^verbatim>\<open>create_vol_geom\<close> are evaluated, whichever subscript is the first.
\<close>

definition astra_volume_geometry :: "env \<Rightarrow> 'a discr_arg \<Rightarrow> error + 'a dict" where
  "astra_volume_geometry e arg =
    (case arg of
       NotDiscreteLp \<Rightarrow> Inl (TypeError ''`discr_reco` {!r} is not a DiscreteLp instance'')
     | DiscreteLpObj discr_reco \<Rightarrow>
        if \<not> is_uniform discr_reco
        then Inl (ValueError ''`discr_reco` {} is not uniformly discretized'')
        else
          let vol_shp = shape (partition_lp discr_reco);
              vol_min = min_pt (partition_lp discr_reco);
              vol_max = max_pt (partition_lp discr_reco)
          in
          if lp_ndim discr_reco = 2 then
            bindE (anisotropic_unsupported e (partition_lp discr_reco) ''anisotropic_voxels_2d'')
              (\<lambda>unsupported.
                if unsupported
                then Inl (NotImplementedError
                       ''non-isotropic pixels in 2d volumes not supported by ASTRA v{}'')
                else if length vol_shp < 2 \<or> length vol_min < 2 \<or> length vol_max < 2
                then Inl IndexError
                else Inr (create_vol_geom
                       [PyInt (vol_shp ! 1), PyInt (vol_shp ! 0),
                        PyFloat (vol_min ! 0), PyFloat (vol_max ! 0),
                        PyFloat (vol_min ! 1), PyFloat (vol_max ! 1)]))
          else if lp_ndim discr_reco = 3 then
            bindE (anisotropic_unsupported e (partition_lp discr_reco) ''anisotropic_voxels_3d'')
              (\<lambda>unsupported.
                if unsupported
                then Inl (NotImplementedError
                       ''non-isotropic voxels in 3d volumes not supported by ASTRA v{}'')
                else if length vol_shp < 3 \<or> length vol_min < 3 \<or> length vol_max < 3
                then Inl IndexError
                else Inr (create_vol_geom
                       [PyInt (vol_shp ! 1), PyInt (vol_shp ! 2), PyInt (vol_shp ! 0),
                        PyFloat (vol_min ! 2), PyFloat (vol_max ! 2),
                        PyFloat (vol_min ! 1), PyFloat (vol_max ! 1),
                        PyFloat (vol_min ! 0), PyFloat (vol_max ! 0)]))
          else Inl (ValueError ''{}-dimensional volume geometries not supported by ASTRA''))"

section \<open>Vector geometries\<close>

text \<open>
  What the module reads of a \<^verbatim>\<open>Geometry\<close>: its class (\<^verbatim>\<open>isinstance\<close> is tested
  against \<^verbatim>\<open>ParallelBeamGeometry\<close> and \<^verbatim>\<open>DivergentBeamGeometry\<close>), the class and
  the size of its detector, its dimension, its angles, the detector partition, the
  midpoint of the detector parameters, the per-angle queries, and the cache of
  backend descriptors, a dictionary from backend names to descriptors.
\<close>

datatype beam_class = ParallelBeamGeometry | DivergentBeamGeometry | OtherBeamGeometry

datatype detector_class = FlatDetector | OtherDetector

record detector =
  det_class :: detector_class
  det_size :: int

record 'a geometry =
  beam :: beam_class
  detector :: detector
  geom_ndim :: int
  angles :: "'a list"
  det_partition :: "'a partition"
  det_params_mid_pt :: "'a list"
  src_position :: "'a \<Rightarrow> 'a list"
  det_point_position :: "'a \<Rightarrow> 'a list \<Rightarrow> 'a list"
  det_axes :: "'a \<Rightarrow> 'a list list"
  det_axis :: "'a \<Rightarrow> 'a list"
  det_to_src :: "'a \<Rightarrow> 'a list \<Rightarrow> 'a list"
  implementation_cache :: "string \<rightharpoonup> 'a dict"

text \<open>
  \<^verbatim>\<open>np.zeros((n, m))\<close> and the slice assignment \<^verbatim>\<open>row[lo:hi] = v\<close> of numpy for a
  one-dimensional \<open>v\<close>: the values are stored when \<open>v\<close> has \<open>hi - lo\<close> entries, one
  entry is broadcast, and any other length raises \<^verbatim>\<open>ValueError\<close>.
\<close>

definition np_zeros :: "nat \<Rightarrow> nat \<Rightarrow> ('a::zero) list list" where
  "np_zeros n m = replicate n (replicate m 0)"

definition set_slice :: "'a list \<Rightarrow> nat \<Rightarrow> nat \<Rightarrow> 'a list \<Rightarrow> error + 'a list" where
  "set_slice row lo hi v =
    (if length v = hi - lo then Inr (take lo row @ v @ drop hi row)
     else if length v = 1 then Inr (take lo row @ replicate (hi - lo) (hd v) @ drop hi row)
     else Inl (ValueError ''could not broadcast input array''))"

text \<open>An array times a scalar, and the negated array.\<close>

definition scale :: "('a::times) list \<Rightarrow> 'a \<Rightarrow> 'a list" where
  "scale v c = map (\<lambda>x. x * c) v"

definition negate :: "('a::uminus) list \<Rightarrow> 'a list" where
  "negate v = map uminus v"

text \<open>
  \<^verbatim>\<open>for ang_idx, angle in enumerate(angles)\<close>: the body rewrites row \<open>ang_idx\<close> of
  \<open>vectors\<close>; an exception in the body ends the loop.
\<close>

fun fill_rows ::
  "('a \<Rightarrow> 'a list \<Rightarrow> error + 'a list) \<Rightarrow> 'a list \<Rightarrow> nat \<Rightarrow> 'a list list \<Rightarrow> error + 'a list list"
  where
  "fill_rows body [] ang_idx vectors = Inr vectors"
| "fill_rows body (angle # rest) ang_idx vectors =
    bindE (body angle (vectors ! ang_idx))
      (\<lambda>row. fill_rows body rest (Suc ang_idx) (vectors[ang_idx := row]))"

text \<open>
  The index list of the axis change,
  \<^verbatim>\<open>for i in range(4): newind += [2 + 3 * i, 1 + 3 * i, 0 + 3 * i]\<close>, and the column
  selection \<^verbatim>\<open>vectors[:, newind]\<close>.
\<close>

definition newind :: "nat list" where
  "newind = fold (\<lambda>i acc. acc @ [2 + 3 * i, 1 + 3 * i, 0 + 3 * i]) [0..<4] []"

definition take_columns :: "'a list list \<Rightarrow> nat list \<Rightarrow> 'a list list" where
  "take_columns vectors ind = map (\<lambda>row. map (\<lambda>j. row ! j) ind) vectors"

text \<open>The loop body of \<^verbatim>\<open>astra_conebeam_3d_geom_to_vec\<close>.\<close>

definition conebeam_3d_row :: "('a::times) geometry \<Rightarrow> 'a \<Rightarrow> 'a list \<Rightarrow> error + 'a list" where
  "conebeam_3d_row geometry angle row0 =
    bindE (set_slice row0 0 3 (src_position geometry angle)) (\<lambda>row1.
    let mid_pt = det_params_mid_pt geometry in
    bindE (set_slice row1 3 6 (det_point_position geometry angle mid_pt)) (\<lambda>row2.
    let axes = det_axes geometry angle;
        px_sizes = cell_sides (det_partition geometry) in
    bindE (index axes 0) (\<lambda>axis0.
    bindE (index px_sizes 0) (\<lambda>px0.
    bindE (set_slice row2 6 9 (scale axis0 px0)) (\<lambda>row3.
    bindE (index axes 1) (\<lambda>axis1.
    bindE (index px_sizes 1) (\<lambda>px1.
    set_slice row3 9 12 (scale axis1 px1))))))))"

definition astra_conebeam_3d_geom_to_vec ::
  "('a::{zero,times}) geometry \<Rightarrow> error + 'a list list" where
  "astra_conebeam_3d_geom_to_vec geometry =
    bindE (fill_rows (conebeam_3d_row geometry) (angles geometry) 0
             (np_zeros (length (angles geometry)) 12))
      (\<lambda>vectors. Inr (take_columns vectors newind))"

text \<open>The loop body of \<^verbatim>\<open>astra_conebeam_2d_geom_to_vec\<close>; no axis change follows.\<close>

definition conebeam_2d_row :: "('a::times) geometry \<Rightarrow> 'a \<Rightarrow> 'a list \<Rightarrow> error + 'a list" where
  "conebeam_2d_row geometry angle row0 =
    bindE (set_slice row0 0 2 (src_position geometry angle)) (\<lambda>row1.
    let mid_pt = det_params_mid_pt geometry in
    bindE (set_slice row1 2 4 (det_point_position geometry angle mid_pt)) (\<lambda>row2.
    let axis = det_axis geometry angle in
    bindE (index (cell_sides (det_partition geometry)) 0) (\<lambda>px_size.
    set_slice row2 4 6 (scale axis px_size))))"

definition astra_conebeam_2d_geom_to_vec ::
  "('a::{zero,times}) geometry \<Rightarrow> error + 'a list list" where
  "astra_conebeam_2d_geom_to_vec geometry =
    fill_rows (conebeam_2d_row geometry) (angles geometry) 0
      (np_zeros (length (angles geometry)) 6)"

text \<open>The loop body of \<^verbatim>\<open>astra_parallel_3d_geom_to_vec\<close>.\<close>

definition parallel_3d_row ::
  "('a::{times,uminus}) geometry \<Rightarrow> 'a \<Rightarrow> 'a list \<Rightarrow> error + 'a list" where
  "parallel_3d_row geometry angle row0 =
    (let mid_pt = det_params_mid_pt geometry in
    bindE (set_slice row0 0 3 (negate (det_to_src geometry angle mid_pt))) (\<lambda>row1.
    bindE (set_slice row1 3 6 (det_point_position geometry angle mid_pt)) (\<lambda>row2.
    let axes = det_axes geometry angle;
        px_sizes = cell_sides (det_partition geometry) in
    bindE (index axes 0) (\<lambda>axis0.
    bindE (index px_sizes 0) (\<lambda>px0.
    bindE (set_slice row2 6 9 (scale axis0 px0)) (\<lambda>row3.
    bindE (index axes 1) (\<lambda>axis1.
    bindE (index px_sizes 1) (\<lambda>px1.
    set_slice row3 9 12 (scale axis1 px1)))))))))"

definition astra_parallel_3d_geom_to_vec ::
  "('a::{zero,times,uminus}) geometry \<Rightarrow> error + 'a list list" where
  "astra_parallel_3d_geom_to_vec geometry =
    bindE (fill_rows (parallel_3d_row geometry) (angles geometry) 0
             (np_zeros (length (angles geometry)) 12))
      (\<lambda>vectors. Inr (take_columns vectors newind))"

section \<open>Projection geometries\<close>

text \<open>
  The backend's \<^verbatim>\<open>astra.create_proj_geom(intype, *args)\<close> in the four forms the module
  calls: the positional arguments are stored under the keys of the backend's
  dictionary, in the order the module's variable names give them
  (\<^verbatim>\<open>det_width, det_count, angles\<close>; \<^verbatim>\<open>det_count, vec\<close>;
  \<^verbatim>\<open>det_row_count, det_col_count, vec\<close>).
\<close>

definition create_proj_geom :: "string \<Rightarrow> 'a pyval list \<Rightarrow> 'a dict" where
  "create_proj_geom intype args =
    (if intype = ''parallel'' then
       (case args of
          [det_width, det_count, angs] \<Rightarrow>
            [(''type'', PyStr intype), (''DetectorWidth'', det_width),
             (''DetectorCount'', det_count), (''ProjectionAngles'', angs)]
        | _ \<Rightarrow> [])
     else if intype = ''fanflat_vec'' then
       (case args of
          [det_count, vec] \<Rightarrow>
            [(''type'', PyStr intype), (''DetectorCount'', det_count), (''Vectors'', vec)]
        | _ \<Rightarrow> [])
     else if intype = ''parallel3d_vec'' \<or> intype = ''cone_vec'' then
       (case args of
          [det_row_count, det_col_count, vec] \<Rightarrow>
            [(''type'', PyStr intype), (''DetectorRowCount'', det_row_count),
             (''DetectorColCount'', det_col_count), (''Vectors'', vec)]
        | _ \<Rightarrow> [])
     else [])"

datatype 'a geometry_arg = GeometryObj "'a geometry" | NotGeometry

text \<open>
  Lines 407 to 446 of the module: the uniformity check and the dispatch on beam class,
  detector class and dimension, in the order of the \<^verbatim>\<open>if\<close>/\<^verbatim>\<open>elif\<close> chain.
\<close>

definition build_proj_geom :: "('a::{zero,times,uminus}) geometry \<Rightarrow> error + 'a dict" where
  "build_proj_geom geometry =
    (if \<not> part_is_uniform (det_partition geometry)
     then Inl (ValueError ''non-uniform detector sampling is not supported'')
     else if beam geometry = ParallelBeamGeometry
           \<and> det_class (detector geometry) = FlatDetector \<and> geom_ndim geometry = 2 then
       bindE (index (cell_sides (det_partition geometry)) 0) (\<lambda>det_width.
       let det_count = det_size (detector geometry) in
       Inr (create_proj_geom ''parallel''
              [PyFloat det_width, PyInt det_count, PyArr (angles geometry)]))
     else if beam geometry = DivergentBeamGeometry
           \<and> det_class (detector geometry) = FlatDetector \<and> geom_ndim geometry = 2 then
       (let det_count = det_size (detector geometry) in
       bindE (astra_conebeam_2d_geom_to_vec geometry) (\<lambda>vec.
       Inr (create_proj_geom ''fanflat_vec'' [PyInt det_count, PyMat vec])))
     else if beam geometry = ParallelBeamGeometry
           \<and> det_class (detector geometry) = FlatDetector \<and> geom_ndim geometry = 3 then
       bindE (index (shape (det_partition geometry)) 1) (\<lambda>det_row_count.
       bindE (index (shape (det_partition geometry)) 0) (\<lambda>det_col_count.
       bindE (astra_parallel_3d_geom_to_vec geometry) (\<lambda>vec.
       Inr (create_proj_geom ''parallel3d_vec''
              [PyInt det_row_count, PyInt det_col_count, PyMat vec]))))
     else if beam geometry = DivergentBeamGeometry
           \<and> det_class (detector geometry) = FlatDetector \<and> geom_ndim geometry = 3 then
       bindE (index (shape (det_partition geometry)) 1) (\<lambda>det_row_count.
       bindE (index (shape (det_partition geometry)) 0) (\<lambda>det_col_count.
       bindE (astra_conebeam_3d_geom_to_vec geometry) (\<lambda>vec.
       Inr (create_proj_geom ''cone_vec''
              [PyInt det_row_count, PyInt det_col_count, PyMat vec]))))
     else Inl (NotImplementedError ''unknown ASTRA geometry type {!r}''))"

text \<open>
  \<^verbatim>\<open>astra_projection_geometry\<close> returns its result together with the argument as the
  call leaves it: the only mutation is the write to \<^verbatim>\<open>implementation_cache\<close>.
\<close>

definition astra_projection_geometry ::
  "('a::{zero,times,uminus}) geometry_arg \<Rightarrow> (error + 'a dict) \<times> 'a geometry_arg" where
  "astra_projection_geometry arg =
    (case arg of
       NotGeometry \<Rightarrow> (Inl (TypeError ''`geometry` {!r} is not a `Geometry` instance''), arg)
     | GeometryObj geometry \<Rightarrow>
        (case implementation_cache geometry ''astra'' of
           Some cached \<Rightarrow> (Inr cached, arg)
         | None \<Rightarrow>
            (case build_proj_geom geometry of
               Inl err \<Rightarrow> (Inl err, arg)
             | Inr proj_geom \<Rightarrow>
                (Inr proj_geom,
                 GeometryObj
                   (if implementation_cache geometry ''astra'' = None
                    then geometry\<lparr>implementation_cache :=
                           (implementation_cache geometry)(''astra'' \<mapsto> proj_geom)\<rparr>
                    else geometry)))))"

section \<open>Data buffers\<close>

text \<open>
  An array is a view of a buffer of the store: the address of the buffer, the number of
  axes, the element type and whether the view is C-contiguous. The store is the list of
  all buffers, a buffer's address its position. A \<^verbatim>\<open>DiscreteLpElement\<close> is read
  through its number of axes, the implementation name of its tuple and the array that
  \<^verbatim>\<open>data.asarray()\<close> returns.
\<close>

record ndarray =
  buf :: nat
  arr_ndim :: int
  dtype :: string
  c_contiguous :: bool

record lp_element =
  elem_ndim :: int
  ntuple_impl :: string
  elem_asarray :: ndarray

datatype data_arg = NoData | NdArray ndarray | Element lp_element | OtherData

type_synonym 'v store = "'v list list"

text \<open>
  \<^verbatim>\<open>np.asarray(data, dtype='float32', order='C')\<close>: numpy returns the array itself
  when it already has the element type and the order asked for, and otherwise
  allocates a converted, C-contiguous copy; \<open>cast\<close> converts the elements of a buffer
  to \<^verbatim>\<open>float32\<close>. An element is converted through its array.
\<close>

definition np_asarray_float32_C ::
  "('v list \<Rightarrow> 'v list) \<Rightarrow> 'v store \<Rightarrow> ndarray \<Rightarrow> ndarray \<times> 'v store" where
  "np_asarray_float32_C cast st a =
    (if dtype a = ''float32'' \<and> c_contiguous a then (a, st)
     else (a\<lparr>buf := length st, dtype := ''float32'', c_contiguous := True\<rparr>,
           st @ [cast (st ! buf a)]))"

text \<open>What the backend does later to a linked array: it writes into the buffer.\<close>

definition backend_write :: "'v store \<Rightarrow> ndarray \<Rightarrow> 'v list \<Rightarrow> 'v store" where
  "backend_write st a vals = st[buf a := vals]"

text \<open>
  The call that \<^verbatim>\<open>astra_data\<close> ends with: \<^verbatim>\<open>astra.data2d\<close> or \<^verbatim>\<open>astra.data3d\<close>
  (the dimension), \<^verbatim>\<open>link\<close> or \<^verbatim>\<open>create\<close>, and the arguments. The handle is what
  the backend returns for the call.
\<close>

datatype 'g data_call =
    Link int string 'g ndarray
  | Create int string 'g

definition astra_data ::
  "('v list \<Rightarrow> 'v list) \<Rightarrow> 'v store \<Rightarrow> 'g \<Rightarrow> string \<Rightarrow> data_arg \<Rightarrow> int \<Rightarrow> bool
    \<Rightarrow> (error + 'g data_call) \<times> 'v store" where
  "astra_data cast st astra_geom datatype data ndim0 allow_copy =
    (case (case data of
             NoData \<Rightarrow> Inr ndim0
           | NdArray a \<Rightarrow> Inr (arr_ndim a)
           | Element el \<Rightarrow> Inr (elem_ndim el)
           | OtherData \<Rightarrow>
               Inl (TypeError
                 ''`data` {!r} is neither DiscreteLpElement instance nor a `numpy.ndarray`''))
     of
       Inl err \<Rightarrow> (Inl err, st)
     | Inr ndim \<Rightarrow>
        if datatype \<noteq> ''volume'' \<and> datatype \<noteq> ''projection''
        then (Inl (ValueError ''`datatype` {!r} not understood''), st)
        else
          let astra_dtype_str = (if datatype = ''volume'' then ''-vol'' else ''-sino'') in
          if ndim \<noteq> 2 \<and> ndim \<noteq> 3
          then (Inl (ValueError ''{}-dimensional data structures not supported''), st)
          else
            (case data of
               NoData \<Rightarrow> (Inr (Create ndim astra_dtype_str astra_geom), st)
             | NdArray a \<Rightarrow>
                 if allow_copy
                 then (let (data_array, st') = np_asarray_float32_C cast st a
                       in (Inr (Link ndim astra_dtype_str astra_geom data_array), st'))
                 else (Inr (Link ndim astra_dtype_str astra_geom a), st)
             | Element el \<Rightarrow>
                 if allow_copy
                 then (let (data_array, st') = np_asarray_float32_C cast st (elem_asarray el)
                       in (Inr (Link ndim astra_dtype_str astra_geom data_array), st'))
                 else if ntuple_impl el = ''numpy''
                 then (Inr (Link ndim astra_dtype_str astra_geom (elem_asarray el)), st)
                 else (Inl (NotImplementedError
                         ''ASTRA supports data wrapping only for `numpy.ndarray` instances, got {!r}''),
                       st)
             | OtherData \<Rightarrow>
                 (Inl (TypeError
                    ''`data` {!r} is neither DiscreteLpElement instance nor a `numpy.ndarray`''),
                  st)))"

section \<open>Projectors\<close>

text \<open>\<^verbatim>\<open>str.lower\<close> on the ASCII letters.\<close>

definition lower_char :: "char \<Rightarrow> char" where
  "lower_char c =
    (case map_of (zip ''ABCDEFGHIJKLMNOPQRSTUVWXYZ'' ''abcdefghijklmnopqrstuvwxyz'') c of
       None \<Rightarrow> c
     | Some l \<Rightarrow> l)"

definition lower :: "string \<Rightarrow> string" where
  "lower s = map lower_char s"

text \<open>A dictionary read \<^verbatim>\<open>d[k]\<close>.\<close>

definition lookup :: "('k \<times> 'b) list \<Rightarrow> 'k \<Rightarrow> error + 'b" where
  "lookup d k = (case map_of d k of None \<Rightarrow> Inl KeyError | Some v \<Rightarrow> Inr v)"

definition type_map_cpu :: "(string \<times> (string \<times> string) list) list" where
  "type_map_cpu =
    (let parallel = [(''nearest'', ''line''), (''linear'', ''linear'')];
         fanflat = [(''nearest'', ''line_fanflat''), (''linear'', ''line_fanflat'')];
         parallel3d = [(''nearest'', ''linear3d''), (''linear'', ''linear3d'')];
         cone = [(''nearest'', ''linearcone''), (''linear'', ''linearcone'')]
     in [(''parallel'', parallel), (''fanflat'', fanflat),
         (''parallel3d'', parallel3d), (''cone'', cone),
         (''fanflat_vec'', fanflat), (''parallel3d_vec'', parallel3d),
         (''cone_vec'', cone)])"

definition type_map_cuda :: "(string \<times> string) list" where
  "type_map_cuda =
    [(''parallel'', ''cuda''), (''parallel3d'', ''cuda3d''),
     (''fanflat'', ''cuda''), (''fanflat_vec'', ''cuda''),
     (''cone'', ''cuda3d''), (''parallel3d_vec'', ''cuda3d''),
     (''cone_vec'', ''cuda3d'')]"

datatype 'a projector_call = ProjectorCreate "'a dict" | Projector3dCreate "'a dict"

definition astra_projector ::
  "env \<Rightarrow> string \<Rightarrow> 'a dict \<Rightarrow> 'a dict \<Rightarrow> int \<Rightarrow> string \<Rightarrow> error + 'a projector_call" where
  "astra_projector e vol_interp astra_vol_geom astra_proj_geom ndim impl0 =
    (if vol_interp \<notin> set [''nearest'', ''linear'']
     then Inl (ValueError ''`vol_interp` {} not understood'')
     else
       let impl = lower impl0 in
       if impl \<notin> set [''cpu'', ''cuda'']
       then Inl (ValueError ''`impl` {} not understood'')
       else if map_of astra_proj_geom ''type'' = None
       then Inl (ValueError ''invalid projection geometry dict {}'')
       else if ndim = 3 \<and> impl = ''cpu''
       then Inl (ValueError ''3D projectors not supported on CPU'')
       else
         (case map_of astra_proj_geom ''type'' of
            Some (PyStr proj_type) \<Rightarrow>
              if proj_type \<notin> set [''parallel'', ''fanflat'', ''fanflat_vec'',
                                   ''parallel3d'', ''parallel3d_vec'', ''cone'', ''cone_vec'']
              then Inl (ValueError ''invalid geometry type {!r}'')
              else
                bindE (if impl = ''cpu''
                       then bindE (lookup type_map_cpu proj_type) (\<lambda>row. lookup row vol_interp)
                       else lookup type_map_cuda proj_type) (\<lambda>projector_type.
                bindE (if proj_type \<in> set [''cone'', ''cone_vec'']
                       then astra_supports e ''cone3d_hacky_density_weighting''
                       else Inr False) (\<lambda>weighting.
                let options = (if weighting then [(''DensityWeighting'', PyBool True)] else []);
                    proj_cfg = [(''type'', PyStr projector_type),
                                (''VolumeGeometry'', PyDict astra_vol_geom),
                                (''ProjectionGeometry'', PyDict astra_proj_geom),
                                (''options'', PyDict options)]
                in if ndim = 2 then Inr (ProjectorCreate proj_cfg)
                   else Inr (Projector3dCreate proj_cfg)))
          | _ \<Rightarrow> Inl (ValueError ''invalid geometry type {!r}'')))"

section \<open>Algorithms\<close>

text \<open>
  A Python string object: its characters, and whether it is the interpreter's interned
  object for these characters. Every string literal of the module that reads like an
  identifier is the interned object; a string that a caller computes or reads is
  another object with the same characters. \<^verbatim>\<open>==\<close> and \<^verbatim>\<open>in\<close> compare the characters,
  \<^verbatim>\<open>is\<close> compares the objects.
\<close>

record str_obj =
  chars :: string
  interned :: bool

definition py_eq :: "str_obj \<Rightarrow> string \<Rightarrow> bool" where
  "py_eq s literal = (chars s = literal)"

definition py_is :: "str_obj \<Rightarrow> string \<Rightarrow> bool" where
  "py_is s literal = (interned s \<and> chars s = literal)"

datatype idval = NoneVal | StrVal string | IntVal int

definition of_option :: "('b \<Rightarrow> idval) \<Rightarrow> 'b option \<Rightarrow> idval" where
  "of_option f x = (case x of None \<Rightarrow> NoneVal | Some v \<Rightarrow> f v)"

definition algo_map :: "(string \<times> (int \<times> (string \<times> string option) list) list) list" where
  "algo_map =
    [(''forward'', [(2, [(''cpu'', Some ''FP''), (''cuda'', Some ''FP_CUDA'')]),
                    (3, [(''cpu'', None), (''cuda'', Some ''FP3D_CUDA'')])]),
     (''backward'', [(2, [(''cpu'', Some ''BP''), (''cuda'', Some ''BP_CUDA'')]),
                     (3, [(''cpu'', None), (''cuda'', Some ''BP3D_CUDA'')])])]"

text \<open>The result is the configuration that goes to \<^verbatim>\<open>astra.algorithm.create\<close>.\<close>

definition astra_algorithm ::
  "str_obj \<Rightarrow> int \<Rightarrow> int \<Rightarrow> int \<Rightarrow> int option \<Rightarrow> string \<Rightarrow> error + (string \<times> idval) list" where
  "astra_algorithm direction ndim vol_id sino_id proj_id impl =
    (if \<not> (py_eq direction ''forward'' \<or> py_eq direction ''backward'')
     then Inl (ValueError ''`direction` {} not understood'')
     else if ndim \<notin> set [2, 3]
     then Inl (ValueError ''{}-dimensional projectors not supported'')
     else if impl \<notin> set [''cpu'', ''cuda'']
     then Inl (ValueError ''`impl` type {} not understood'')
     else if ndim = 3 \<and> impl = ''cpu''
     then Inl (NotImplementedError ''3d algorithms for CPU not supported by ASTRA'')
     else if proj_id = None \<and> impl = ''cpu''
     then Inl (ValueError ''cpu implementation requires projector ID'')
     else
       bindE (lookup algo_map (chars direction)) (\<lambda>by_ndim.
       bindE (lookup by_ndim ndim) (\<lambda>by_impl.
       bindE (lookup by_impl impl) (\<lambda>algo_type.
       let algo_cfg = [(''type'', of_option StrVal algo_type),
                       (''ProjectorId'', of_option IntVal proj_id),
                       (''ProjectionDataId'', IntVal sino_id)]
       in if py_is direction ''forward''
          then Inr (algo_cfg @ [(''VolumeDataId'', IntVal vol_id)])
          else Inr (algo_cfg @ [(''ReconstructionDataId'', IntVal vol_id)])))))"

section \<open>The rows of the vector geometries, by groups\<close>

text \<open>
  The four groups of three values that the loop body of the cone-beam builder and of the
  3D parallel builder store in a row, and the three groups of two values of the fan-beam
  builder, in the order of the store; and the geometries whose queries return vectors
  of the dimension, for two detector axes or one.
\<close>

definition cone_triples :: "('a::times) geometry \<Rightarrow> 'a \<Rightarrow> 'a list list" where
  "cone_triples g \<theta> =
    [src_position g \<theta>,
     det_point_position g \<theta> (det_params_mid_pt g),
     scale (det_axes g \<theta> ! 0) (cell_sides (det_partition g) ! 0),
     scale (det_axes g \<theta> ! 1) (cell_sides (det_partition g) ! 1)]"

definition parallel_triples :: "('a::{times,uminus}) geometry \<Rightarrow> 'a \<Rightarrow> 'a list list" where
  "parallel_triples g \<theta> =
    [negate (det_to_src g \<theta> (det_params_mid_pt g)),
     det_point_position g \<theta> (det_params_mid_pt g),
     scale (det_axes g \<theta> ! 0) (cell_sides (det_partition g) ! 0),
     scale (det_axes g \<theta> ! 1) (cell_sides (det_partition g) ! 1)]"

definition fan_pairs :: "('a::times) geometry \<Rightarrow> 'a \<Rightarrow> 'a list list" where
  "fan_pairs g \<theta> =
    [src_position g \<theta>,
     det_point_position g \<theta> (det_params_mid_pt g),
     scale (det_axis g \<theta>) (cell_sides (det_partition g) ! 0)]"

definition vectors_3d :: "'a geometry \<Rightarrow> ('a \<Rightarrow> 'a list list) \<Rightarrow> bool" where
  "vectors_3d g groups =
    (2 \<le> length (cell_sides (det_partition g)) \<and>
     (\<forall>\<theta> \<in> set (angles g).
        2 \<le> length (det_axes g \<theta>) \<and> (\<forall>v \<in> set (groups \<theta>). length v = 3)))"

definition vectors_2d :: "'a geometry \<Rightarrow> ('a \<Rightarrow> 'a list list) \<Rightarrow> bool" where
  "vectors_2d g groups =
    (1 \<le> length (cell_sides (det_partition g)) \<and>
     (\<forall>\<theta> \<in> set (angles g). \<forall>v \<in> set (groups \<theta>). length v = 2))"

text \<open>A row of twelve values with each of its four triples reversed.\<close>

definition reverse_triples :: "'a list \<Rightarrow> 'a list" where
  "reverse_triples row =
    rev (take 3 row) @ rev (take 3 (drop 3 row)) @ rev (take 3 (drop 6 row)) @ rev (drop 9 row)"

section \<open>Example inputs\<close>

text \<open>
  A backend of version 1.8, and the reconstruction space of
  \<^verbatim>\<open>examples/tomo/check_axes_parallel3d.py\<close>: shape \<open>(100, 150, 200)\<close>, centred at
  the origin, with unit cells.
\<close>

definition astra_1_8 :: env where
  "astra_1_8 =
    \<lparr>ASTRA_VERSION = ''1.8'',
     meets = (\<lambda>v r. v = ''1.8'' \<and> (r = ''>=1.8'' \<or> r = ''>=1.7.2''))\<rparr>"

definition reco_space :: "real discrete_lp" where
  "reco_space =
    \<lparr>is_uniform = True,
     partition_lp =
       \<lparr>shape = [100, 150, 200], min_pt = [-50, -75, -100], max_pt = [50, 75, 100],
        cell_sides = [1, 1, 1], has_isotropic_cells = True, part_is_uniform = True\<rparr>,
     lp_ndim = 3\<rparr>"

text \<open>A 2D grid of 4 by 8 cells with cells of size 2 by 1, and a grid that is not uniform.\<close>

definition anisotropic_2d :: "real discrete_lp" where
  "anisotropic_2d =
    \<lparr>is_uniform = True,
     partition_lp =
       \<lparr>shape = [4, 8], min_pt = [-4, -4], max_pt = [4, 4],
        cell_sides = [2, 1], has_isotropic_cells = False, part_is_uniform = True\<rparr>,
     lp_ndim = 2\<rparr>"

definition nonuniform_2d :: "real discrete_lp" where
  "nonuniform_2d =
    \<lparr>is_uniform = False,
     partition_lp =
       \<lparr>shape = [4, 8], min_pt = [-4, -4], max_pt = [4, 4],
        cell_sides = [2, 1], has_isotropic_cells = False, part_is_uniform = False\<rparr>,
     lp_ndim = 2\<rparr>"

text \<open>
  A cone-beam and a parallel-beam geometry in 3D and a fan-beam geometry in 2D, at the
  angles \<open>0\<close> and \<open>\<pi>\<close>, with the detector axes, positions and cell sizes
  written out.
\<close>

definition cone_3d :: "real geometry" where
  "cone_3d =
    \<lparr>beam = DivergentBeamGeometry,
     detector = \<lparr>det_class = FlatDetector, det_size = 12\<rparr>,
     geom_ndim = 3,
     angles = [0, pi],
     det_partition =
       \<lparr>shape = [3, 4], min_pt = [-3, -6], max_pt = [3, 6], cell_sides = [2, 3],
        has_isotropic_cells = False, part_is_uniform = True\<rparr>,
     det_params_mid_pt = [0, 0],
     src_position = (\<lambda>\<theta>. if \<theta> = 0 then [-10, 0, 0] else [10, 0, 0]),
     det_point_position = (\<lambda>\<theta> param. if \<theta> = 0 then [5, 0, 0] else [-5, 0, 0]),
     det_axes = (\<lambda>\<theta>. if \<theta> = 0 then [[0, 1, 0], [0, 0, 1]] else [[0, -1, 0], [0, 0, 1]]),
     det_axis = (\<lambda>\<theta>. []),
     det_to_src = (\<lambda>\<theta> param. if \<theta> = 0 then [-1, 0, 0] else [1, 0, 0]),
     implementation_cache = Map.empty\<rparr>"

definition parallel_3d :: "real geometry" where
  "parallel_3d = cone_3d\<lparr>beam := ParallelBeamGeometry, src_position := (\<lambda>\<theta>. [])\<rparr>"

definition fan_2d :: "real geometry" where
  "fan_2d =
    \<lparr>beam = DivergentBeamGeometry,
     detector = \<lparr>det_class = FlatDetector, det_size = 5\<rparr>,
     geom_ndim = 2,
     angles = [0, pi],
     det_partition =
       \<lparr>shape = [5], min_pt = [-5], max_pt = [5], cell_sides = [2],
        has_isotropic_cells = True, part_is_uniform = True\<rparr>,
     det_params_mid_pt = [0],
     src_position = (\<lambda>\<theta>. if \<theta> = 0 then [-10, 0] else [10, 0]),
     det_point_position = (\<lambda>\<theta> param. if \<theta> = 0 then [5, 0] else [-5, 0]),
     det_axes = (\<lambda>\<theta>. []),
     det_axis = (\<lambda>\<theta>. if \<theta> = 0 then [0, 1] else [0, -1]),
     det_to_src = (\<lambda>\<theta> param. if \<theta> = 0 then [-1, 0] else [1, 0]),
     implementation_cache = Map.empty\<rparr>"

text \<open>
  The descriptor of the parallel-beam example; the example with that descriptor in its
  cache and a detector partition that is not uniform; the example without cache entry
  and a partition that is not uniform; and the cone-beam example with a detector that
  is not flat.
\<close>

definition cached_descriptor :: "real dict" where
  "cached_descriptor =
    create_proj_geom ''parallel3d_vec''
      [PyInt 4, PyInt 3,
       PyMat [[0, 0, 1,  0, 0, 5,  0, 2, 0,  3, 0, 0],
              [0, 0, -1,  0, 0, -5,  0, -2, 0,  3, 0, 0]]]"

definition nonuniform_cached :: "real geometry" where
  "nonuniform_cached =
    parallel_3d
      \<lparr>det_partition := (det_partition parallel_3d)\<lparr>part_is_uniform := False\<rparr>,
       implementation_cache := [''astra'' \<mapsto> cached_descriptor]\<rparr>"

definition nonuniform_3d :: "real geometry" where
  "nonuniform_3d =
    parallel_3d\<lparr>det_partition := (det_partition parallel_3d)\<lparr>part_is_uniform := False\<rparr>\<rparr>"

definition curved_3d :: "real geometry" where
  "curved_3d = cone_3d\<lparr>detector := \<lparr>det_class = OtherDetector, det_size = 12\<rparr>\<rparr>"

text \<open>
  A 2D volume geometry of 2 by 2 cells, and a C-contiguous \<^verbatim>\<open>float32\<close> array on the
  buffer at address 0.
\<close>

definition vol_geom_2x2 :: "real dict" where
  "vol_geom_2x2 =
    create_vol_geom [PyInt 2, PyInt 2, PyFloat (-1), PyFloat 1, PyFloat (-1), PyFloat 1]"

definition float32_2d :: ndarray where
  "float32_2d = \<lparr>buf = 0, arr_ndim = 2, dtype = ''float32'', c_contiguous = True\<rparr>"


section \<open>Volume geometries: results\<close>

lemma anisotropic_unsupported_False:
  "has_isotropic_cells p \<or> astra_supports e f = Inr True
    \<Longrightarrow> anisotropic_unsupported e p f = Inr False"
  by (auto simp: anisotropic_unsupported_def bindE_def)

lemma astra_supports_anisotropic_voxels_2d:
  "astra_supports e ''anisotropic_voxels_2d'' = Inr False"
  by (simp add: astra_supports_def pkg_supports_def ASTRA_FEATURES_def)

text \<open>
  Claim C1. For a uniformly discretized grid with three axes that passes the anisotropy
  check (its cells are isotropic, or the backend supports \<open>anisotropic_voxels_3d\<close>),
  \<open>astra_volume_geometry\<close> returns the descriptor of
  \<open>create_vol_geom\<close> called with the sizes of axes 1, 2, 0 and then the bounds
  (axis-2 min, axis-2 max, axis-1 min, axis-1 max, axis-0 min, axis-0 max): its column
  count is the size of axis 2, its row count the size of axis 1, its slice count the
  size of axis 0, and its window in X, Y, Z is the extent of axes 2, 1, 0.
\<close>

theorem astra_volume_geometry_3d:
  fixes g :: "'a discrete_lp"
  assumes "is_uniform g" and "lp_ndim g = 3"
    and "length (shape (partition_lp g)) = 3"
    and "length (min_pt (partition_lp g)) = 3"
    and "length (max_pt (partition_lp g)) = 3"
    and "has_isotropic_cells (partition_lp g)
          \<or> astra_supports e ''anisotropic_voxels_3d'' = Inr True"
  shows "\<exists>vg. astra_volume_geometry e (DiscreteLpObj g) = Inr vg \<and>
      vg = create_vol_geom
            [PyInt (shape (partition_lp g) ! 1), PyInt (shape (partition_lp g) ! 2),
             PyInt (shape (partition_lp g) ! 0),
             PyFloat (min_pt (partition_lp g) ! 2), PyFloat (max_pt (partition_lp g) ! 2),
             PyFloat (min_pt (partition_lp g) ! 1), PyFloat (max_pt (partition_lp g) ! 1),
             PyFloat (min_pt (partition_lp g) ! 0), PyFloat (max_pt (partition_lp g) ! 0)] \<and>
      map_of vg ''GridColCount'' = Some (PyInt (shape (partition_lp g) ! 2)) \<and>
      map_of vg ''GridRowCount'' = Some (PyInt (shape (partition_lp g) ! 1)) \<and>
      map_of vg ''GridSliceCount'' = Some (PyInt (shape (partition_lp g) ! 0)) \<and>
      map_of vg ''WindowMinX'' = Some (PyFloat (min_pt (partition_lp g) ! 2)) \<and>
      map_of vg ''WindowMaxX'' = Some (PyFloat (max_pt (partition_lp g) ! 2)) \<and>
      map_of vg ''WindowMinY'' = Some (PyFloat (min_pt (partition_lp g) ! 1)) \<and>
      map_of vg ''WindowMaxY'' = Some (PyFloat (max_pt (partition_lp g) ! 1)) \<and>
      map_of vg ''WindowMinZ'' = Some (PyFloat (min_pt (partition_lp g) ! 0)) \<and>
      map_of vg ''WindowMaxZ'' = Some (PyFloat (max_pt (partition_lp g) ! 0))"
proof -
  have "anisotropic_unsupported e (partition_lp g) ''anisotropic_voxels_3d'' = Inr False"
    using assms(6) by (rule anisotropic_unsupported_False)
  then have "astra_volume_geometry e (DiscreteLpObj g) = Inr (create_vol_geom
            [PyInt (shape (partition_lp g) ! 1), PyInt (shape (partition_lp g) ! 2),
             PyInt (shape (partition_lp g) ! 0),
             PyFloat (min_pt (partition_lp g) ! 2), PyFloat (max_pt (partition_lp g) ! 2),
             PyFloat (min_pt (partition_lp g) ! 1), PyFloat (max_pt (partition_lp g) ! 1),
             PyFloat (min_pt (partition_lp g) ! 0), PyFloat (max_pt (partition_lp g) ! 0)])"
    using assms(1-5) by (simp add: astra_volume_geometry_def bindE_def Let_def)
  then show ?thesis by simp
qed

theorem astra_volume_geometry_3d_witness:
  "astra_volume_geometry astra_1_8 (DiscreteLpObj reco_space) =
     Inr [(''GridRowCount'', PyInt 150), (''GridColCount'', PyInt 200),
          (''GridSliceCount'', PyInt 100),
          (''WindowMinX'', PyFloat (-100)), (''WindowMaxX'', PyFloat 100),
          (''WindowMinY'', PyFloat (-75)), (''WindowMaxY'', PyFloat 75),
          (''WindowMinZ'', PyFloat (-50)), (''WindowMaxZ'', PyFloat 50)]"
  using astra_volume_geometry_3d [of reco_space astra_1_8]
  by (simp add: reco_space_def)

text \<open>
  Claim C7. For a uniformly discretized grid with two axes and anisotropic cells, when
  the backend does not support \<open>anisotropic_voxels_2d\<close>, \<open>astra_volume_geometry\<close>
  raises the error for anisotropic pixels and returns no descriptor; and the feature
  matrix maps \<open>anisotropic_voxels_2d\<close> to no version at all.
\<close>

theorem astra_volume_geometry_2d_anisotropic:
  fixes g :: "'a discrete_lp"
  assumes "is_uniform g" and "lp_ndim g = 2"
    and "\<not> has_isotropic_cells (partition_lp g)"
    and "astra_supports e ''anisotropic_voxels_2d'' = Inr False"
  shows "astra_volume_geometry e (DiscreteLpObj g) =
           Inl (NotImplementedError
                  ''non-isotropic pixels in 2d volumes not supported by ASTRA v{}'')
       \<and> map_of ASTRA_FEATURES ''anisotropic_voxels_2d'' = Some NoVersion"
  using assms
  by (simp add: astra_volume_geometry_def anisotropic_unsupported_def bindE_def
      ASTRA_FEATURES_def)

theorem astra_volume_geometry_2d_anisotropic_witness:
  "astra_supports astra_1_8 ''anisotropic_voxels_2d'' = Inr False
   \<and> astra_volume_geometry astra_1_8 (DiscreteLpObj anisotropic_2d) =
       Inl (NotImplementedError
              ''non-isotropic pixels in 2d volumes not supported by ASTRA v{}'')"
  using astra_volume_geometry_2d_anisotropic [of anisotropic_2d astra_1_8]
    astra_supports_anisotropic_voxels_2d [of astra_1_8]
  by (simp add: anisotropic_2d_def)

text \<open>
  Claim C10. For a grid that is not uniformly discretized, \<open>astra_volume_geometry\<close>
  raises the error for non-uniform discretizations and returns no descriptor, whatever
  the dimension, the cells and the backend are; the check comes after the check of the
  input's type, which raises for an input that is no \<open>DiscreteLp\<close>.
\<close>

theorem astra_volume_geometry_not_uniform:
  fixes g :: "'a discrete_lp"
  assumes "\<not> is_uniform g"
  shows "astra_volume_geometry e (DiscreteLpObj g) =
           Inl (ValueError ''`discr_reco` {} is not uniformly discretized'')
       \<and> astra_volume_geometry e (NotDiscreteLp :: 'a discr_arg) =
           Inl (TypeError ''`discr_reco` {!r} is not a DiscreteLp instance'')"
  using assms by (simp add: astra_volume_geometry_def)

theorem astra_volume_geometry_not_uniform_witness:
  "\<not> is_uniform nonuniform_2d
   \<and> astra_volume_geometry astra_1_8 (DiscreteLpObj nonuniform_2d) =
       Inl (ValueError ''`discr_reco` {} is not uniformly discretized'')
   \<and> astra_volume_geometry astra_1_8 (DiscreteLpObj (nonuniform_2d\<lparr>lp_ndim := 7\<rparr>)) =
       Inl (ValueError ''`discr_reco` {} is not uniformly discretized'')"
  using astra_volume_geometry_not_uniform [of nonuniform_2d astra_1_8]
    astra_volume_geometry_not_uniform [of "nonuniform_2d\<lparr>lp_ndim := 7\<rparr>" astra_1_8]
  by (simp add: nonuniform_2d_def)

section \<open>Vector geometries: results\<close>

lemma newind_eq: "newind = [2, 1, 0, 5, 4, 3, 8, 7, 6, 11, 10, 9]"
  by (simp add: newind_def upt_rec numeral_nat)

lemma fill_rows_map:
  assumes "\<And>\<theta> row. \<theta> \<in> set as \<Longrightarrow> length row = m \<Longrightarrow> body \<theta> row = Inr (f \<theta>)"
    and "\<And>\<theta>. \<theta> \<in> set as \<Longrightarrow> length (f \<theta>) = m"
    and "\<forall>row \<in> set vs. length row = m"
    and "i + length as \<le> length vs"
  shows "fill_rows body as i vs = Inr (take i vs @ map f as @ drop (i + length as) vs)"
  using assms
proof (induction as arbitrary: i vs)
  case Nil
  then show ?case by simp
next
  case (Cons \<theta> rest)
  have i: "i < length vs" using Cons.prems(4) by simp
  then have "length (vs ! i) = m" using Cons.prems(3) by simp
  then have step: "body \<theta> (vs ! i) = Inr (f \<theta>)" using Cons.prems(1) by simp
  have inv: "\<forall>row \<in> set (vs[i := f \<theta>]). length row = m"
    using Cons.prems(2,3) by (auto dest!: set_update_subset_insert [THEN subsetD])
  have "fill_rows body rest (Suc i) (vs[i := f \<theta>]) =
      Inr (take (Suc i) (vs[i := f \<theta>]) @ map f rest @ drop (Suc i + length rest) (vs[i := f \<theta>]))"
    using Cons.prems(1,2,4) inv by (intro Cons.IH) auto
  moreover have "take (Suc i) (vs[i := f \<theta>]) = take i vs @ [f \<theta>]"
    using i by (simp add: take_Suc_conv_app_nth)
  ultimately show ?case using step by (simp add: bindE_def)
qed

lemma fill_rows_zeros:
  assumes body: "\<And>\<theta> row. \<theta> \<in> set as \<Longrightarrow> length row = m \<Longrightarrow> body \<theta> row = Inr (f \<theta>)"
    and len: "\<And>\<theta>. \<theta> \<in> set as \<Longrightarrow> length (f \<theta>) = m"
  shows "fill_rows body as 0 (np_zeros (length as) m) = Inr (map f as)"
proof -
  let ?z = "np_zeros (length as) m :: 'a list list"
  have rows: "\<forall>row \<in> set ?z. length row = m"
    by (simp add: np_zeros_def)
  have n: "0 + length as \<le> length ?z"
    by (simp add: np_zeros_def)
  have "fill_rows body as 0 ?z = Inr (take 0 ?z @ map f as @ drop (0 + length as) ?z)"
    using body len rows n by (rule fill_rows_map)
  then show ?thesis
    by (simp add: np_zeros_def)
qed

lemma len3: "length v = 3 \<Longrightarrow> \<exists>a b c. v = [a, b, c]"
  by (auto simp: length_Suc_conv numeral_3_eq_3)


lemma set_slice_fits:
  "length v = hi - lo \<Longrightarrow> set_slice row lo hi v = Inr (take lo row @ v @ drop hi row)"
  by (simp add: set_slice_def)

lemma conebeam_3d_row_eq:
  assumes "length row = 12"
    and "2 \<le> length (cell_sides (det_partition g))"
    and "2 \<le> length (det_axes g \<theta>)"
    and "\<forall>v \<in> set (cone_triples g \<theta>). length v = 3"
  shows "conebeam_3d_row g \<theta> row = Inr (concat (cone_triples g \<theta>))"
  using assms
  by (auto simp: conebeam_3d_row_def cone_triples_def set_slice_fits index_def bindE_def Let_def)

lemma parallel_3d_row_eq:
  assumes "length row = 12"
    and "2 \<le> length (cell_sides (det_partition g))"
    and "2 \<le> length (det_axes g \<theta>)"
    and "\<forall>v \<in> set (parallel_triples g \<theta>). length v = 3"
  shows "parallel_3d_row g \<theta> row = Inr (concat (parallel_triples g \<theta>))"
  using assms
  by (auto simp: parallel_3d_row_def parallel_triples_def set_slice_fits index_def bindE_def
      Let_def)

lemma conebeam_2d_row_eq:
  assumes "length row = 6"
    and "1 \<le> length (cell_sides (det_partition g))"
    and "\<forall>v \<in> set (fan_pairs g \<theta>). length v = 2"
  shows "conebeam_2d_row g \<theta> row = Inr (concat (fan_pairs g \<theta>))"
  using assms
  by (auto simp: conebeam_2d_row_def fan_pairs_def set_slice_fits index_def bindE_def Let_def)

lemma columns_of_triples:
  assumes "length ts = 4" and "\<forall>v \<in> set ts. length v = 3"
  shows "map (\<lambda>j. concat ts ! j) [2, 1, 0, 5, 4, 3, 8, 7, 6, 11, 10, 9] = concat (map rev ts)"
proof -
  from assms(1) obtain a b c d where ts: "ts = [a, b, c, d]"
    by (auto simp: length_Suc_conv numeral_eq_Suc)
  from assms(2) ts obtain a0 a1 a2 b0 b1 b2 c0 c1 c2 d0 d1 d2
    where "a = [a0, a1, a2]" "b = [b0, b1, b2]" "c = [c0, c1, c2]" "d = [d0, d1, d2]"
    using len3 [of a] len3 [of b] len3 [of c] len3 [of d] by auto
  with ts show ?thesis by simp
qed

lemma take_columns_triples:
  assumes "\<forall>\<theta> \<in> set as. length (ts \<theta>) = 4 \<and> (\<forall>v \<in> set (ts \<theta>). length v = 3)"
  shows "take_columns (map (\<lambda>\<theta>. concat (ts \<theta>)) as) newind =
      map (\<lambda>\<theta>. concat (map rev (ts \<theta>))) as"
  unfolding take_columns_def newind_eq map_map comp_def
proof (rule map_cong [OF refl])
  fix \<theta> assume "\<theta> \<in> set as"
  then have "length (ts \<theta>) = 4" and "\<forall>v \<in> set (ts \<theta>). length v = 3"
    using assms by auto
  then show "map ((!) (concat (ts \<theta>))) [2, 1, 0, 5, 4, 3, 8, 7, 6, 11, 10, 9]
      = concat (map rev (ts \<theta>))"
    by (rule columns_of_triples)
qed

lemma conebeam_3d_rows:
  fixes c :: "('a::{zero,times}) geometry"
  assumes "vectors_3d c (cone_triples c)"
  shows "fill_rows (conebeam_3d_row c) (angles c) 0 (np_zeros (length (angles c)) 12) =
      Inr (map (\<lambda>\<theta>. concat (cone_triples c \<theta>)) (angles c))"
proof (rule fill_rows_zeros)
  fix \<theta> row assume "\<theta> \<in> set (angles c)" "length (row :: 'a list) = 12"
  then show "conebeam_3d_row c \<theta> row = Inr (concat (cone_triples c \<theta>))"
    using assms by (intro conebeam_3d_row_eq) (auto simp: vectors_3d_def)
next
  fix \<theta> assume "\<theta> \<in> set (angles c)"
  then have "\<forall>v \<in> set (cone_triples c \<theta>). length v = 3"
    using assms by (auto simp: vectors_3d_def)
  then show "length (concat (cone_triples c \<theta>)) = 12"
    by (simp add: cone_triples_def)
qed

lemma parallel_3d_rows:
  fixes p :: "('a::{zero,times,uminus}) geometry"
  assumes "vectors_3d p (parallel_triples p)"
  shows "fill_rows (parallel_3d_row p) (angles p) 0 (np_zeros (length (angles p)) 12) =
      Inr (map (\<lambda>\<theta>. concat (parallel_triples p \<theta>)) (angles p))"
proof (rule fill_rows_zeros)
  fix \<theta> row assume "\<theta> \<in> set (angles p)" "length (row :: 'a list) = 12"
  then show "parallel_3d_row p \<theta> row = Inr (concat (parallel_triples p \<theta>))"
    using assms by (intro parallel_3d_row_eq) (auto simp: vectors_3d_def)
next
  fix \<theta> assume "\<theta> \<in> set (angles p)"
  then have "\<forall>v \<in> set (parallel_triples p \<theta>). length v = 3"
    using assms by (auto simp: vectors_3d_def)
  then show "length (concat (parallel_triples p \<theta>)) = 12"
    by (simp add: parallel_triples_def)
qed

lemma conebeam_2d_rows:
  fixes f :: "('a::{zero,times}) geometry"
  assumes "vectors_2d f (fan_pairs f)"
  shows "astra_conebeam_2d_geom_to_vec f =
      Inr (map (\<lambda>\<theta>. concat (fan_pairs f \<theta>)) (angles f))"
  unfolding astra_conebeam_2d_geom_to_vec_def
proof (rule fill_rows_zeros)
  fix \<theta> row assume "\<theta> \<in> set (angles f)" "length (row :: 'a list) = 6"
  then show "conebeam_2d_row f \<theta> row = Inr (concat (fan_pairs f \<theta>))"
    using assms by (intro conebeam_2d_row_eq) (auto simp: vectors_2d_def)
next
  fix \<theta> assume "\<theta> \<in> set (angles f)"
  then have "\<forall>v \<in> set (fan_pairs f \<theta>). length v = 2"
    using assms by (auto simp: vectors_2d_def)
  then show "length (concat (fan_pairs f \<theta>)) = 6"
    by (simp add: fan_pairs_def)
qed

lemma conebeam_3d_natural:
  fixes c :: "('a::{zero,times}) geometry"
  assumes "vectors_3d c (cone_triples c)"
  shows "astra_conebeam_3d_geom_to_vec c =
      Inr (take_columns (map (\<lambda>\<theta>. concat (cone_triples c \<theta>)) (angles c)) newind)"
  using conebeam_3d_rows [OF assms]
  by (simp add: astra_conebeam_3d_geom_to_vec_def bindE_def)

lemma parallel_3d_natural:
  fixes p :: "('a::{zero,times,uminus}) geometry"
  assumes "vectors_3d p (parallel_triples p)"
  shows "astra_parallel_3d_geom_to_vec p =
      Inr (take_columns (map (\<lambda>\<theta>. concat (parallel_triples p \<theta>)) (angles p)) newind)"
  using parallel_3d_rows [OF assms]
  by (simp add: astra_parallel_3d_geom_to_vec_def bindE_def)

lemma triples_3d:
  "vectors_3d g ts \<Longrightarrow> (\<And>\<theta>. length (ts \<theta>) = 4)
    \<Longrightarrow> \<forall>\<theta> \<in> set (angles g). length (ts \<theta>) = 4 \<and> (\<forall>v \<in> set (ts \<theta>). length v = 3)"
  by (simp add: vectors_3d_def)

lemma set_slice_length:
  assumes "set_slice row lo hi v = Inr row'" and "lo \<le> hi" and "hi \<le> length row"
  shows "length row' = length row"
  using assms by (auto simp: set_slice_def split: if_splits)

lemma bindE_Inr: "bindE r f = Inr y \<Longrightarrow> \<exists>x. r = Inr x \<and> f x = Inr y"
  by (cases r) (simp_all add: bindE_def)

lemma conebeam_3d_row_length:
  assumes "conebeam_3d_row g \<theta> row = Inr row'" and "length row = 12"
  shows "length row' = 12"
proof -
  from assms(1) obtain r1 r2 r3 v1 v2 v3 v4 where
    "set_slice row 0 3 v1 = Inr r1" "set_slice r1 3 6 v2 = Inr r2"
    "set_slice r2 6 9 v3 = Inr r3" "set_slice r3 9 12 v4 = Inr row'"
    unfolding conebeam_3d_row_def Let_def
    by (blast dest!: bindE_Inr)
  then show ?thesis
    using assms(2) by (auto dest!: set_slice_length)
qed

lemma parallel_3d_row_length:
  assumes "parallel_3d_row g \<theta> row = Inr row'" and "length row = 12"
  shows "length row' = 12"
proof -
  from assms(1) obtain r1 r2 r3 v1 v2 v3 v4 where
    "set_slice row 0 3 v1 = Inr r1" "set_slice r1 3 6 v2 = Inr r2"
    "set_slice r2 6 9 v3 = Inr r3" "set_slice r3 9 12 v4 = Inr row'"
    unfolding parallel_3d_row_def Let_def
    by (blast dest!: bindE_Inr)
  then show ?thesis
    using assms(2) by (auto dest!: set_slice_length)
qed

lemma fill_rows_shape:
  assumes "fill_rows body as i vs = Inr vs'"
    and "\<And>\<theta> row row'. body \<theta> row = Inr row' \<Longrightarrow> length row = m \<Longrightarrow> length row' = m"
    and "\<forall>row \<in> set vs. length row = m"
    and "i + length as \<le> length vs"
  shows "length vs' = length vs \<and> (\<forall>row \<in> set vs'. length row = m)"
  using assms
proof (induction as arbitrary: i vs)
  case Nil
  then show ?case by simp
next
  case (Cons \<theta> rest)
  from Cons.prems(1) obtain row' where
    body: "body \<theta> (vs ! i) = Inr row'"
    and rest: "fill_rows body rest (Suc i) (vs[i := row']) = Inr vs'"
    by (auto dest!: bindE_Inr)
  have "i < length vs" using Cons.prems(4) by simp
  then have "length (vs ! i) = m" using Cons.prems(3) by simp
  with body have "length row' = m" by (rule Cons.prems(2))
  then have inv: "\<forall>row \<in> set (vs[i := row']). length row = m"
    using Cons.prems(3) by (auto dest!: set_update_subset_insert [THEN subsetD])
  have "length vs' = length (vs[i := row']) \<and> (\<forall>row \<in> set vs'. length row = m)"
    using rest Cons.prems(2) inv
  proof (rule Cons.IH)
    show "Suc i + length rest \<le> length (vs[i := row'])"
      using Cons.prems(4) by simp
  qed
  then show ?case by simp
qed

lemma columns_reverse_triples:
  assumes "length row = 12"
  shows "map (\<lambda>j. row ! j) newind = reverse_triples row"
proof -
  from assms obtain a b c d e f g h i j k l where "row = [a, b, c, d, e, f, g, h, i, j, k, l]"
    by (auto simp: length_Suc_conv numeral_eq_Suc)
  then show ?thesis
    by (simp add: newind_eq reverse_triples_def)
qed

lemma conebeam_3d_general:
  fixes g :: "('a::{zero,times}) geometry"
  assumes "astra_conebeam_3d_geom_to_vec g = Inr vs"
  shows "\<exists>rows. fill_rows (conebeam_3d_row g) (angles g) 0 (np_zeros (length (angles g)) 12)
            = Inr rows
          \<and> length rows = length (angles g) \<and> (\<forall>row \<in> set rows. length row = 12)
          \<and> vs = take_columns rows newind \<and> vs = map reverse_triples rows"
proof -
  from assms obtain rows where
    rows: "fill_rows (conebeam_3d_row g) (angles g) 0 (np_zeros (length (angles g)) 12)
            = Inr rows"
    and vs: "vs = take_columns rows newind"
    unfolding astra_conebeam_3d_geom_to_vec_def by (auto dest!: bindE_Inr)
  have "length rows = length (np_zeros (length (angles g)) 12 :: 'a list list)
      \<and> (\<forall>row \<in> set rows. length row = 12)"
    using rows
  proof (rule fill_rows_shape)
    show "\<forall>row \<in> set (np_zeros (length (angles g)) 12 :: 'a list list). length row = 12"
      by (simp add: np_zeros_def)
    show "0 + length (angles g) \<le> length (np_zeros (length (angles g)) 12 :: 'a list list)"
      by (simp add: np_zeros_def)
  qed (rule conebeam_3d_row_length)
  then have shape: "length rows = length (angles g)" "\<forall>row \<in> set rows. length row = 12"
    by (simp_all add: np_zeros_def)
  then have "take_columns rows newind = map reverse_triples rows"
    by (simp add: take_columns_def columns_reverse_triples)
  with rows vs shape show ?thesis by blast
qed

lemma parallel_3d_general:
  fixes g :: "('a::{zero,times,uminus}) geometry"
  assumes "astra_parallel_3d_geom_to_vec g = Inr vs"
  shows "\<exists>rows. fill_rows (parallel_3d_row g) (angles g) 0 (np_zeros (length (angles g)) 12)
            = Inr rows
          \<and> length rows = length (angles g) \<and> (\<forall>row \<in> set rows. length row = 12)
          \<and> vs = take_columns rows newind \<and> vs = map reverse_triples rows"
proof -
  from assms obtain rows where
    rows: "fill_rows (parallel_3d_row g) (angles g) 0 (np_zeros (length (angles g)) 12)
            = Inr rows"
    and vs: "vs = take_columns rows newind"
    unfolding astra_parallel_3d_geom_to_vec_def by (auto dest!: bindE_Inr)
  have "length rows = length (np_zeros (length (angles g)) 12 :: 'a list list)
      \<and> (\<forall>row \<in> set rows. length row = 12)"
    using rows
  proof (rule fill_rows_shape)
    show "\<forall>row \<in> set (np_zeros (length (angles g)) 12 :: 'a list list). length row = 12"
      by (simp add: np_zeros_def)
    show "0 + length (angles g) \<le> length (np_zeros (length (angles g)) 12 :: 'a list list)"
      by (simp add: np_zeros_def)
  qed (rule parallel_3d_row_length)
  then have shape: "length rows = length (angles g)" "\<forall>row \<in> set rows. length row = 12"
    by (simp_all add: np_zeros_def)
  then have "take_columns rows newind = map reverse_triples rows"
    by (simp add: take_columns_def columns_reverse_triples)
  with rows vs shape show ?thesis by blast
qed

text \<open>The rows of the two 3D builders, and their values on the examples.\<close>

lemma conebeam_3d_vectors:
  fixes c :: "('a::{zero,times}) geometry"
  assumes "vectors_3d c (cone_triples c)"
  shows "astra_conebeam_3d_geom_to_vec c =
      Inr (map (\<lambda>\<theta>. concat (map rev (cone_triples c \<theta>))) (angles c))"
proof -
  have "\<And>\<theta>. length (cone_triples c \<theta>) = 4"
    by (simp add: cone_triples_def)
  then have "take_columns (map (\<lambda>\<theta>. concat (cone_triples c \<theta>)) (angles c)) newind =
      map (\<lambda>\<theta>. concat (map rev (cone_triples c \<theta>))) (angles c)"
    using triples_3d [OF assms] by (intro take_columns_triples) blast
  then show ?thesis
    using conebeam_3d_natural [OF assms] by simp
qed

lemma parallel_3d_vectors:
  fixes p :: "('a::{zero,times,uminus}) geometry"
  assumes "vectors_3d p (parallel_triples p)"
  shows "astra_parallel_3d_geom_to_vec p =
      Inr (map (\<lambda>\<theta>. concat (map rev (parallel_triples p \<theta>))) (angles p))"
proof -
  have "\<And>\<theta>. length (parallel_triples p \<theta>) = 4"
    by (simp add: parallel_triples_def)
  then have "take_columns (map (\<lambda>\<theta>. concat (parallel_triples p \<theta>)) (angles p)) newind =
      map (\<lambda>\<theta>. concat (map rev (parallel_triples p \<theta>))) (angles p)"
    using triples_3d [OF assms] by (intro take_columns_triples) blast
  then show ?thesis
    using parallel_3d_natural [OF assms] by simp
qed

lemma cone_3d_vec:
  "astra_conebeam_3d_geom_to_vec cone_3d =
      Inr [[0, 0, -10,  0, 0, 5,  0, 2, 0,  3, 0, 0],
           [0, 0, 10,  0, 0, -5,  0, -2, 0,  3, 0, 0]]"
proof -
  have "vectors_3d cone_3d (cone_triples cone_3d)"
    by (simp add: cone_3d_def vectors_3d_def cone_triples_def scale_def)
  from conebeam_3d_vectors [OF this] show ?thesis
    by (simp add: cone_3d_def cone_triples_def scale_def)
qed

lemma parallel_3d_vec:
  "astra_parallel_3d_geom_to_vec parallel_3d =
      Inr [[0, 0, 1,  0, 0, 5,  0, 2, 0,  3, 0, 0],
           [0, 0, -1,  0, 0, -5,  0, -2, 0,  3, 0, 0]]"
proof -
  have "vectors_3d parallel_3d (parallel_triples parallel_3d)"
    by (simp add: parallel_3d_def cone_3d_def vectors_3d_def parallel_triples_def scale_def
        negate_def)
  from parallel_3d_vectors [OF this] show ?thesis
    by (simp add: parallel_3d_def cone_3d_def parallel_triples_def scale_def negate_def)
qed

text \<open>
  Claim C2. The index list of the axis change is [2,1,0, 5,4,3, 8,7,6, 11,10,9]. Whenever
  the cone-beam builder or the 3D parallel builder returns, for whatever geometry, the
  loop has assembled one row of twelve values per angle, and the result is these rows
  with the columns selected by the index list: every row with each of its four triples
  reversed. The fan-beam builder returns the rows of its loop as they are. For
  geometries whose queries return vectors of the dimension, the rows of the 3D builders
  are the four triples of the natural order, each \<open>(a, b, c)\<close> stored as \<open>(c, b, a)\<close>,
  one row per angle in the order of the angles, and the rows of the fan-beam builder
  are its three pairs in the natural order.
\<close>

theorem vector_builders_axis_order:
  fixes c p f g :: "('a::{zero,times,uminus}) geometry"
  assumes "vectors_3d c (cone_triples c)"
    and "vectors_3d p (parallel_triples p)"
    and "vectors_2d f (fan_pairs f)"
  shows "newind = [2, 1, 0, 5, 4, 3, 8, 7, 6, 11, 10, 9]
    \<and> (astra_conebeam_3d_geom_to_vec g = Inr vs \<longrightarrow>
        (\<exists>rows. fill_rows (conebeam_3d_row g) (angles g) 0 (np_zeros (length (angles g)) 12)
                  = Inr rows
          \<and> length rows = length (angles g) \<and> (\<forall>row \<in> set rows. length row = 12)
          \<and> vs = take_columns rows newind \<and> vs = map reverse_triples rows))
    \<and> (astra_parallel_3d_geom_to_vec g = Inr vs' \<longrightarrow>
        (\<exists>rows. fill_rows (parallel_3d_row g) (angles g) 0 (np_zeros (length (angles g)) 12)
                  = Inr rows
          \<and> length rows = length (angles g) \<and> (\<forall>row \<in> set rows. length row = 12)
          \<and> vs' = take_columns rows newind \<and> vs' = map reverse_triples rows))
    \<and> astra_conebeam_2d_geom_to_vec g =
        fill_rows (conebeam_2d_row g) (angles g) 0 (np_zeros (length (angles g)) 6)
    \<and> astra_conebeam_3d_geom_to_vec c =
        Inr (map (\<lambda>\<theta>. concat (map rev (cone_triples c \<theta>))) (angles c))
    \<and> astra_parallel_3d_geom_to_vec p =
        Inr (map (\<lambda>\<theta>. concat (map rev (parallel_triples p \<theta>))) (angles p))
    \<and> astra_conebeam_2d_geom_to_vec f =
        Inr (map (\<lambda>\<theta>. concat (fan_pairs f \<theta>)) (angles f))"
proof (intro conjI impI)
  show "newind = [2, 1, 0, 5, 4, 3, 8, 7, 6, 11, 10, 9]"
    by (rule newind_eq)
next
  assume "astra_conebeam_3d_geom_to_vec g = Inr vs"
  then show "\<exists>rows. fill_rows (conebeam_3d_row g) (angles g) 0
                      (np_zeros (length (angles g)) 12) = Inr rows
          \<and> length rows = length (angles g) \<and> (\<forall>row \<in> set rows. length row = 12)
          \<and> vs = take_columns rows newind \<and> vs = map reverse_triples rows"
    by (rule conebeam_3d_general)
next
  assume "astra_parallel_3d_geom_to_vec g = Inr vs'"
  then show "\<exists>rows. fill_rows (parallel_3d_row g) (angles g) 0
                      (np_zeros (length (angles g)) 12) = Inr rows
          \<and> length rows = length (angles g) \<and> (\<forall>row \<in> set rows. length row = 12)
          \<and> vs' = take_columns rows newind \<and> vs' = map reverse_triples rows"
    by (rule parallel_3d_general)
next
  show "astra_conebeam_2d_geom_to_vec g =
        fill_rows (conebeam_2d_row g) (angles g) 0 (np_zeros (length (angles g)) 6)"
    by (simp add: astra_conebeam_2d_geom_to_vec_def)
next
  show "astra_conebeam_3d_geom_to_vec c =
        Inr (map (\<lambda>\<theta>. concat (map rev (cone_triples c \<theta>))) (angles c))"
    using assms(1) by (rule conebeam_3d_vectors)
next
  show "astra_parallel_3d_geom_to_vec p =
        Inr (map (\<lambda>\<theta>. concat (map rev (parallel_triples p \<theta>))) (angles p))"
    using assms(2) by (rule parallel_3d_vectors)
next
  show "astra_conebeam_2d_geom_to_vec f =
        Inr (map (\<lambda>\<theta>. concat (fan_pairs f \<theta>)) (angles f))"
    using assms(3) by (rule conebeam_2d_rows)
qed

theorem vector_builders_axis_order_witness:
  "astra_conebeam_3d_geom_to_vec cone_3d =
      Inr [[0, 0, -10,  0, 0, 5,  0, 2, 0,  3, 0, 0],
           [0, 0, 10,  0, 0, -5,  0, -2, 0,  3, 0, 0]]
   \<and> astra_parallel_3d_geom_to_vec parallel_3d =
      Inr [[0, 0, 1,  0, 0, 5,  0, 2, 0,  3, 0, 0],
           [0, 0, -1,  0, 0, -5,  0, -2, 0,  3, 0, 0]]
   \<and> astra_conebeam_2d_geom_to_vec fan_2d =
      Inr [[-10, 0,  5, 0,  0, 2], [10, 0,  -5, 0,  0, -2]]
   \<and> fill_rows (conebeam_3d_row cone_3d) (angles cone_3d) 0
        (np_zeros (length (angles cone_3d)) 12) =
      Inr [[-10, 0, 0,  5, 0, 0,  0, 2, 0,  0, 0, 3],
           [10, 0, 0,  -5, 0, 0,  0, -2, 0,  0, 0, 3]]"
proof -
  have c: "vectors_3d cone_3d (cone_triples cone_3d)"
    by (simp add: cone_3d_def vectors_3d_def cone_triples_def scale_def)
  have p: "vectors_3d parallel_3d (parallel_triples parallel_3d)"
    by (simp add: parallel_3d_def cone_3d_def vectors_3d_def parallel_triples_def scale_def
        negate_def)
  have f: "vectors_2d fan_2d (fan_pairs fan_2d)"
    by (simp add: fan_2d_def vectors_2d_def fan_pairs_def scale_def)
  note inst = vector_builders_axis_order [OF c p f, of cone_3d]
  have "astra_conebeam_3d_geom_to_vec cone_3d =
        Inr (map (\<lambda>\<theta>. concat (map rev (cone_triples cone_3d \<theta>))) (angles cone_3d))"
    and "astra_parallel_3d_geom_to_vec parallel_3d =
        Inr (map (\<lambda>\<theta>. concat (map rev (parallel_triples parallel_3d \<theta>)))
               (angles parallel_3d))"
    and "astra_conebeam_2d_geom_to_vec fan_2d =
        Inr (map (\<lambda>\<theta>. concat (fan_pairs fan_2d \<theta>)) (angles fan_2d))"
    using inst by blast+
  then have results: "astra_conebeam_3d_geom_to_vec cone_3d =
        Inr [[0, 0, -10,  0, 0, 5,  0, 2, 0,  3, 0, 0],
             [0, 0, 10,  0, 0, -5,  0, -2, 0,  3, 0, 0]]"
    "astra_parallel_3d_geom_to_vec parallel_3d =
        Inr [[0, 0, 1,  0, 0, 5,  0, 2, 0,  3, 0, 0],
             [0, 0, -1,  0, 0, -5,  0, -2, 0,  3, 0, 0]]"
    "astra_conebeam_2d_geom_to_vec fan_2d =
        Inr [[-10, 0,  5, 0,  0, 2], [10, 0,  -5, 0,  0, -2]]"
    by (simp_all add: cone_3d_def parallel_3d_def fan_2d_def cone_triples_def
        parallel_triples_def fan_pairs_def scale_def negate_def)
  have "fill_rows (conebeam_3d_row cone_3d) (angles cone_3d) 0
        (np_zeros (length (angles cone_3d)) 12) =
      Inr [[-10, 0, 0,  5, 0, 0,  0, 2, 0,  0, 0, 3],
           [10, 0, 0,  -5, 0, 0,  0, -2, 0,  0, 0, 3]]"
    using conebeam_3d_rows [OF c]
    by (simp add: cone_3d_def cone_triples_def scale_def)
  with results show ?thesis by simp
qed

section \<open>Projection geometries: results\<close>

lemma build_proj_geom_3d:
  fixes g :: "('a::{zero,times,uminus}) geometry"
  assumes "part_is_uniform (det_partition g)"
    and "det_class (detector g) = FlatDetector" and "geom_ndim g = 3"
    and "length (shape (det_partition g)) = 2"
    and "beam g = ParallelBeamGeometry \<and> astra_parallel_3d_geom_to_vec g = Inr vec
       \<or> beam g = DivergentBeamGeometry \<and> astra_conebeam_3d_geom_to_vec g = Inr vec"
  shows "build_proj_geom g =
      Inr (create_proj_geom
            (if beam g = ParallelBeamGeometry then ''parallel3d_vec'' else ''cone_vec'')
            [PyInt (shape (det_partition g) ! 1), PyInt (shape (det_partition g) ! 0),
             PyMat vec])"
  using assms by (auto simp: build_proj_geom_def index_def bindE_def)

text \<open>
  Claim C9. For a parallel-beam geometry with a flat detector in 3D that has no cached
  descriptor, a uniform detector partition with two axes, and rows \<open>vec\<close> from the
  3D parallel builder, \<open>astra_projection_geometry\<close> returns the descriptor of
  \<open>create_proj_geom\<close> for \<open>parallel3d_vec\<close> whose row count is the size of
  partition axis 1 and whose column count is the size of partition axis 0, with
  \<open>vec\<close> as its vectors. The same holds for a divergent-beam geometry, with the
  cone-beam builder and \<open>cone_vec\<close>.
\<close>

theorem projection_geometry_3d_counts:
  fixes g :: "('a::{zero,times,uminus}) geometry"
  assumes "implementation_cache g ''astra'' = None"
    and "part_is_uniform (det_partition g)"
    and "det_class (detector g) = FlatDetector" and "geom_ndim g = 3"
    and "length (shape (det_partition g)) = 2"
    and "beam g = ParallelBeamGeometry \<and> astra_parallel_3d_geom_to_vec g = Inr vec
       \<or> beam g = DivergentBeamGeometry \<and> astra_conebeam_3d_geom_to_vec g = Inr vec"
  shows "\<exists>pg. fst (astra_projection_geometry (GeometryObj g)) = Inr pg \<and>
      pg = create_proj_geom
            (if beam g = ParallelBeamGeometry then ''parallel3d_vec'' else ''cone_vec'')
            [PyInt (shape (det_partition g) ! 1), PyInt (shape (det_partition g) ! 0),
             PyMat vec] \<and>
      map_of pg ''DetectorRowCount'' = Some (PyInt (shape (det_partition g) ! 1)) \<and>
      map_of pg ''DetectorColCount'' = Some (PyInt (shape (det_partition g) ! 0)) \<and>
      map_of pg ''Vectors'' = Some (PyMat vec)"
proof -
  have "fst (astra_projection_geometry (GeometryObj g)) =
      Inr (create_proj_geom
            (if beam g = ParallelBeamGeometry then ''parallel3d_vec'' else ''cone_vec'')
            [PyInt (shape (det_partition g) ! 1), PyInt (shape (det_partition g) ! 0),
             PyMat vec])"
    using build_proj_geom_3d [OF assms(2-6)] assms(1)
    by (simp add: astra_projection_geometry_def)
  then show ?thesis
    by (simp add: create_proj_geom_def)
qed

theorem projection_geometry_3d_counts_witness:
  "fst (astra_projection_geometry (GeometryObj parallel_3d)) =
      Inr [(''type'', PyStr ''parallel3d_vec''),
           (''DetectorRowCount'', PyInt 4), (''DetectorColCount'', PyInt 3),
           (''Vectors'', PyMat [[0, 0, 1,  0, 0, 5,  0, 2, 0,  3, 0, 0],
                                [0, 0, -1,  0, 0, -5,  0, -2, 0,  3, 0, 0]])]
   \<and> fst (astra_projection_geometry (GeometryObj cone_3d)) =
      Inr [(''type'', PyStr ''cone_vec''),
           (''DetectorRowCount'', PyInt 4), (''DetectorColCount'', PyInt 3),
           (''Vectors'', PyMat [[0, 0, -10,  0, 0, 5,  0, 2, 0,  3, 0, 0],
                                [0, 0, 10,  0, 0, -5,  0, -2, 0,  3, 0, 0]])]"
proof -
  have p: "beam parallel_3d = ParallelBeamGeometry \<and>
        astra_parallel_3d_geom_to_vec parallel_3d =
          Inr [[0, 0, 1,  0, 0, 5,  0, 2, 0,  3, 0, 0],
               [0, 0, -1,  0, 0, -5,  0, -2, 0,  3, 0, 0]]
      \<or> beam parallel_3d = DivergentBeamGeometry \<and>
        astra_conebeam_3d_geom_to_vec parallel_3d =
          Inr [[0, 0, 1,  0, 0, 5,  0, 2, 0,  3, 0, 0],
               [0, 0, -1,  0, 0, -5,  0, -2, 0,  3, 0, 0]]"
    using parallel_3d_vec by (simp add: parallel_3d_def)
  have c: "beam cone_3d = ParallelBeamGeometry \<and>
        astra_parallel_3d_geom_to_vec cone_3d =
          Inr [[0, 0, -10,  0, 0, 5,  0, 2, 0,  3, 0, 0],
               [0, 0, 10,  0, 0, -5,  0, -2, 0,  3, 0, 0]]
      \<or> beam cone_3d = DivergentBeamGeometry \<and>
        astra_conebeam_3d_geom_to_vec cone_3d =
          Inr [[0, 0, -10,  0, 0, 5,  0, 2, 0,  3, 0, 0],
               [0, 0, 10,  0, 0, -5,  0, -2, 0,  3, 0, 0]]"
    using cone_3d_vec by (simp add: cone_3d_def)
  show ?thesis
    using projection_geometry_3d_counts [OF _ _ _ _ _ p]
      projection_geometry_3d_counts [OF _ _ _ _ _ c]
    by (auto simp: parallel_3d_def cone_3d_def create_proj_geom_def)
qed

lemma parallel_3d_first_call:
  "astra_projection_geometry (GeometryObj parallel_3d) =
     (Inr cached_descriptor,
      GeometryObj (parallel_3d\<lparr>implementation_cache := [''astra'' \<mapsto> cached_descriptor]\<rparr>))"
proof -
  have "build_proj_geom parallel_3d = Inr cached_descriptor"
    using parallel_3d_vec
    by (simp add: build_proj_geom_def parallel_3d_def cone_3d_def index_def bindE_def
        cached_descriptor_def)
  moreover have "implementation_cache parallel_3d = Map.empty"
    by (simp add: parallel_3d_def cone_3d_def)
  ultimately show ?thesis
    by (simp add: astra_projection_geometry_def)
qed

text \<open>
  Claim C5. When the cache of a geometry has an entry for \<open>astra\<close>,
  \<open>astra_projection_geometry\<close> returns that entry and leaves the geometry as it is,
  whatever the geometry is otherwise: uniform or not, of a supported variant or not,
  with queries on which the builders succeed or fail. Hence a call that follows a
  successful call, on the geometry as the first call left it, returns the same
  descriptor and changes nothing.
\<close>

theorem projection_geometry_cached:
  fixes g :: "('a::{zero,times,uminus}) geometry"
  shows "(implementation_cache g ''astra'' = Some d
      \<longrightarrow> astra_projection_geometry (GeometryObj g) = (Inr d, GeometryObj g))
    \<and> (astra_projection_geometry a = (Inr d', a')
      \<longrightarrow> astra_projection_geometry a' = (Inr d', a'))"
proof (intro conjI impI)
  assume "implementation_cache g ''astra'' = Some d"
  then show "astra_projection_geometry (GeometryObj g) = (Inr d, GeometryObj g)"
    by (simp add: astra_projection_geometry_def)
next
  assume first: "astra_projection_geometry a = (Inr d', a')"
  then obtain h where a: "a = GeometryObj h"
    by (cases a) (auto simp: astra_projection_geometry_def)
  show "astra_projection_geometry a' = (Inr d', a')"
  proof (cases "implementation_cache h ''astra''")
    case (Some cached)
    with first a show ?thesis
      by (auto simp: astra_projection_geometry_def)
  next
    case None
    with first a have "a' = GeometryObj (h\<lparr>implementation_cache :=
        (implementation_cache h)(''astra'' \<mapsto> d')\<rparr>)"
      by (auto simp: astra_projection_geometry_def split: sum.splits)
    then show ?thesis
      by (simp add: astra_projection_geometry_def)
  qed
qed

theorem projection_geometry_cached_witness:
  "astra_projection_geometry (GeometryObj nonuniform_cached) =
      (Inr cached_descriptor, GeometryObj nonuniform_cached)
   \<and> astra_projection_geometry (GeometryObj parallel_3d) =
      (Inr cached_descriptor,
       GeometryObj (parallel_3d\<lparr>implementation_cache := [''astra'' \<mapsto> cached_descriptor]\<rparr>))
   \<and> astra_projection_geometry
        (GeometryObj (parallel_3d\<lparr>implementation_cache := [''astra'' \<mapsto> cached_descriptor]\<rparr>)) =
      (Inr cached_descriptor,
       GeometryObj (parallel_3d\<lparr>implementation_cache := [''astra'' \<mapsto> cached_descriptor]\<rparr>))"
proof -
  have "implementation_cache nonuniform_cached ''astra'' = Some cached_descriptor"
    by (simp add: nonuniform_cached_def)
  with projection_geometry_cached [of nonuniform_cached cached_descriptor]
  have "astra_projection_geometry (GeometryObj nonuniform_cached) =
      (Inr cached_descriptor, GeometryObj nonuniform_cached)"
    by blast
  moreover from projection_geometry_cached [of parallel_3d cached_descriptor
      "GeometryObj parallel_3d" cached_descriptor
      "GeometryObj (parallel_3d\<lparr>implementation_cache := [''astra'' \<mapsto> cached_descriptor]\<rparr>)"]
    parallel_3d_first_call
  have "astra_projection_geometry
        (GeometryObj (parallel_3d\<lparr>implementation_cache := [''astra'' \<mapsto> cached_descriptor]\<rparr>)) =
      (Inr cached_descriptor,
       GeometryObj (parallel_3d\<lparr>implementation_cache := [''astra'' \<mapsto> cached_descriptor]\<rparr>))"
    by blast
  ultimately show ?thesis
    using parallel_3d_first_call by simp
qed

text \<open>
  Claim C6. Whenever \<open>astra_projection_geometry\<close> raises, it returns no descriptor
  and leaves its argument, and with it the cache, as it was. It raises for an argument
  that is no \<open>Geometry\<close>; for a geometry without cache entry whose detector partition
  is not uniform; and for a geometry without cache entry, with a uniform partition,
  that is none of the four supported variants.
\<close>

theorem projection_geometry_failure:
  fixes g :: "('a::{zero,times,uminus}) geometry"
  shows "(fst (astra_projection_geometry a) = Inl err \<longrightarrow> snd (astra_projection_geometry a) = a)
    \<and> astra_projection_geometry (NotGeometry :: 'a geometry_arg) =
        (Inl (TypeError ''`geometry` {!r} is not a `Geometry` instance''), NotGeometry)
    \<and> (implementation_cache g ''astra'' = None \<and> \<not> part_is_uniform (det_partition g)
      \<longrightarrow> astra_projection_geometry (GeometryObj g) =
           (Inl (ValueError ''non-uniform detector sampling is not supported''), GeometryObj g))
    \<and> (implementation_cache g ''astra'' = None \<and> part_is_uniform (det_partition g)
        \<and> \<not> ((beam g = ParallelBeamGeometry \<or> beam g = DivergentBeamGeometry)
             \<and> det_class (detector g) = FlatDetector
             \<and> (geom_ndim g = 2 \<or> geom_ndim g = 3))
      \<longrightarrow> astra_projection_geometry (GeometryObj g) =
           (Inl (NotImplementedError ''unknown ASTRA geometry type {!r}''), GeometryObj g))"
proof (intro conjI impI)
  assume "fst (astra_projection_geometry a) = Inl err"
  then show "snd (astra_projection_geometry a) = a"
    by (auto simp: astra_projection_geometry_def
        split: geometry_arg.splits option.splits sum.splits)
next
  show "astra_projection_geometry (NotGeometry :: 'a geometry_arg) =
        (Inl (TypeError ''`geometry` {!r} is not a `Geometry` instance''), NotGeometry)"
    by (simp add: astra_projection_geometry_def)
next
  assume "implementation_cache g ''astra'' = None \<and> \<not> part_is_uniform (det_partition g)"
  then show "astra_projection_geometry (GeometryObj g) =
           (Inl (ValueError ''non-uniform detector sampling is not supported''), GeometryObj g)"
    by (simp add: astra_projection_geometry_def build_proj_geom_def)
next
  assume "implementation_cache g ''astra'' = None \<and> part_is_uniform (det_partition g)
        \<and> \<not> ((beam g = ParallelBeamGeometry \<or> beam g = DivergentBeamGeometry)
             \<and> det_class (detector g) = FlatDetector
             \<and> (geom_ndim g = 2 \<or> geom_ndim g = 3))"
  then have "build_proj_geom g = Inl (NotImplementedError ''unknown ASTRA geometry type {!r}'')"
    by (auto simp: build_proj_geom_def)
  moreover assume "implementation_cache g ''astra'' = None \<and> part_is_uniform (det_partition g)
        \<and> \<not> ((beam g = ParallelBeamGeometry \<or> beam g = DivergentBeamGeometry)
             \<and> det_class (detector g) = FlatDetector
             \<and> (geom_ndim g = 2 \<or> geom_ndim g = 3))"
  ultimately show "astra_projection_geometry (GeometryObj g) =
           (Inl (NotImplementedError ''unknown ASTRA geometry type {!r}''), GeometryObj g)"
    by (simp add: astra_projection_geometry_def)
qed

theorem projection_geometry_failure_witness:
  "astra_projection_geometry (GeometryObj nonuniform_3d) =
      (Inl (ValueError ''non-uniform detector sampling is not supported''),
       GeometryObj nonuniform_3d)
   \<and> astra_projection_geometry (GeometryObj curved_3d) =
      (Inl (NotImplementedError ''unknown ASTRA geometry type {!r}''), GeometryObj curved_3d)
   \<and> snd (astra_projection_geometry (GeometryObj curved_3d)) = GeometryObj curved_3d"
proof -
  have n: "implementation_cache nonuniform_3d ''astra'' = None
      \<and> \<not> part_is_uniform (det_partition nonuniform_3d)"
    by (simp add: nonuniform_3d_def parallel_3d_def cone_3d_def)
  have c: "implementation_cache curved_3d ''astra'' = None
      \<and> part_is_uniform (det_partition curved_3d)
      \<and> \<not> ((beam curved_3d = ParallelBeamGeometry \<or> beam curved_3d = DivergentBeamGeometry)
           \<and> det_class (detector curved_3d) = FlatDetector
           \<and> (geom_ndim curved_3d = 2 \<or> geom_ndim curved_3d = 3))"
    by (simp add: curved_3d_def cone_3d_def)
  have 1: "astra_projection_geometry (GeometryObj nonuniform_3d) =
      (Inl (ValueError ''non-uniform detector sampling is not supported''),
       GeometryObj nonuniform_3d)"
    using projection_geometry_failure [of "GeometryObj nonuniform_3d" _ nonuniform_3d] n
    by blast
  have 2: "astra_projection_geometry (GeometryObj curved_3d) =
      (Inl (NotImplementedError ''unknown ASTRA geometry type {!r}''), GeometryObj curved_3d)"
    using projection_geometry_failure [of "GeometryObj curved_3d" _ curved_3d] c
    by blast
  have "snd (astra_projection_geometry (GeometryObj curved_3d)) = GeometryObj curved_3d"
    using projection_geometry_failure [of "GeometryObj curved_3d"
        "NotImplementedError ''unknown ASTRA geometry type {!r}''" curved_3d] 2
    by simp
  with 1 2 show ?thesis by simp
qed

section \<open>Projectors and algorithms: results\<close>

text \<open>
  What \<open>astra_algorithm\<close> stores for every valid call: the volume handle goes under
  \<open>VolumeDataId\<close> when \<open>direction\<close> is the interned object \<open>forward\<close>, and under
  \<open>ReconstructionDataId\<close> in every other case.
\<close>

lemma astra_algorithm_valid:
  assumes "chars direction = ''forward'' \<or> chars direction = ''backward''"
    and "ndim = 2 \<or> ndim = 3" and "impl = ''cuda'' \<or> impl = ''cpu'' \<and> ndim = 2 \<and> proj_id \<noteq> None"
  shows "\<exists>cfg. astra_algorithm direction ndim vol_id sino_id proj_id impl = Inr cfg \<and>
     (py_is direction ''forward'' \<longrightarrow> map_of cfg ''VolumeDataId'' = Some (IntVal vol_id)
         \<and> map_of cfg ''ReconstructionDataId'' = None) \<and>
     (\<not> py_is direction ''forward'' \<longrightarrow> map_of cfg ''ReconstructionDataId'' = Some (IntVal vol_id)
         \<and> map_of cfg ''VolumeDataId'' = None)"
  using assms
  by (auto simp: astra_algorithm_def py_eq_def py_is_def lookup_def algo_map_def bindE_def Let_def)

text \<open>
  Claim C3. The configuration has the volume handle under \<open>VolumeDataId\<close> whenever
  the direction equals \<open>forward\<close>. The module tests \<^verbatim>\<open>direction is 'forward'\<close>: for
  a string that equals \<open>forward\<close> and is not the interned object, the algorithm type is
  the forward projection \<open>FP\<close> and the volume handle is stored under
  \<open>ReconstructionDataId\<close>.
\<close>

theorem astra_algorithm_forward_by_value:
  "astra_algorithm \<lparr>chars = ''forward'', interned = False\<rparr> 2 1 2 (Some 3) ''cpu'' =
     Inr [(''type'', StrVal ''FP''), (''ProjectorId'', IntVal 3),
          (''ProjectionDataId'', IntVal 2), (''ReconstructionDataId'', IntVal 1)]"
  by (simp add: astra_algorithm_def py_eq_def py_is_def lookup_def algo_map_def bindE_def
      of_option_def)

text \<open>
  Claim C8, as stated: every call of \<open>astra_algorithm\<close> with dimension 3 on the CPU
  raises the error for 3D on the CPU. A call with a direction that is not understood
  raises the error for the direction, which is checked first.
\<close>

theorem astra_algorithm_cpu_3d_invalid_direction:
  "astra_algorithm \<lparr>chars = ''sideways'', interned = True\<rparr> 3 1 2 (Some 3) ''cpu'' =
     Inl (ValueError ''`direction` {} not understood'')
   \<and> astra_algorithm \<lparr>chars = ''sideways'', interned = True\<rparr> 3 1 2 (Some 3) ''cpu'' \<noteq>
     Inl (NotImplementedError ''3d algorithms for CPU not supported by ASTRA'')"
  by (simp add: astra_algorithm_def py_eq_def)

text \<open>
  Claim C8, amended. With dimension 3 and the CPU as target, \<open>astra_projector\<close>
  raises its error for 3D projectors on the CPU when the interpolation is understood
  and the projection geometry has a type; \<open>astra_algorithm\<close> raises its error for 3D
  algorithms on the CPU when the direction is \<open>forward\<close> or \<open>backward\<close>. Neither
  returns a handle.
\<close>

theorem cpu_3d_unsupported:
  "(vol_interp \<in> {''nearest'', ''linear''} \<and> lower impl = ''cpu''
      \<and> map_of astra_proj_geom ''type'' \<noteq> None
     \<longrightarrow> astra_projector e vol_interp astra_vol_geom astra_proj_geom 3 impl =
           Inl (ValueError ''3D projectors not supported on CPU''))
   \<and> (chars direction \<in> {''forward'', ''backward''}
     \<longrightarrow> astra_algorithm direction 3 vol_id sino_id proj_id ''cpu'' =
           Inl (NotImplementedError ''3d algorithms for CPU not supported by ASTRA''))"
  by (auto simp: astra_projector_def astra_algorithm_def py_eq_def Let_def)

theorem cpu_3d_unsupported_witness:
  "astra_projector astra_1_8 ''linear'' [] [(''type'', PyStr ''cone_vec'')] 3 ''CPU'' =
       (Inl (ValueError ''3D projectors not supported on CPU'') :: error + real projector_call)
   \<and> astra_algorithm \<lparr>chars = ''backward'', interned = False\<rparr> 3 1 2 None ''cpu'' =
       Inl (NotImplementedError ''3d algorithms for CPU not supported by ASTRA'')"
  using cpu_3d_unsupported [of "''linear''" "''CPU''" "[(''type'', PyStr ''cone_vec'')]"
      astra_1_8 "[] :: real dict" "\<lparr>chars = ''backward'', interned = False\<rparr>" 1 2 None]
  by (simp add: lower_def lower_char_def)

section \<open>Data buffers: results\<close>

text \<open>
  With \<open>allow_copy\<close>, a data type that is understood and an array or element of 2 or
  3 axes, \<open>astra_data\<close> links whatever
  \<^verbatim>\<open>np.asarray(data, dtype='float32', order='C')\<close> returns, and the store is as that
  call leaves it.
\<close>

lemma astra_data_link_asarray:
  assumes "datatype = ''volume'' \<or> datatype = ''projection''"
    and "data = NdArray a \<and> ndim = arr_ndim a
       \<or> data = Element el \<and> a = elem_asarray el \<and> ndim = elem_ndim el"
    and "ndim = 2 \<or> ndim = 3"
  shows "astra_data cast st astra_geom datatype data ndim0 True =
      (Inr (Link ndim (if datatype = ''volume'' then ''-vol'' else ''-sino'') astra_geom
              (fst (np_asarray_float32_C cast st a))),
       snd (np_asarray_float32_C cast st a))"
proof -
  from assms(2) consider
      (array) "data = NdArray a" "ndim = arr_ndim a"
    | (element) "data = Element el" "a = elem_asarray el" "ndim = elem_ndim el"
    by blast
  then show ?thesis
  proof cases
    case array
    with assms(1,3) show ?thesis
      by (simp add: astra_data_def Let_def split_beta)
  next
    case element
    with assms(1,3) show ?thesis
      by (simp add: astra_data_def Let_def split_beta)
  qed
qed

text \<open>
  Claim C4. With \<open>allow_copy\<close>, \<open>astra_data\<close> is to link a fresh copy of the buffer,
  distinct from the original backing storage, so that what the backend writes to the
  linked buffer never reaches the original data; the docstring of \<open>allow_copy\<close> says
  the same. For a 2D array that is \<^verbatim>\<open>float32\<close> and C-contiguous already, on the
  buffer \<open>[1, 2, 3, 4]\<close> at address 0, the module links the array itself and
  allocates nothing, and a write of \<open>[9, 9, 9, 9]\<close> by the backend to the linked array
  is a write into the original buffer.
\<close>

theorem astra_data_allow_copy_links_original:
  "astra_data id [[1, 2, 3, 4]] vol_geom_2x2 ''volume'' (NdArray float32_2d) 2 True =
      (Inr (Link 2 ''-vol'' vol_geom_2x2 float32_2d), [[1, 2, 3, 4 :: real]])
   \<and> backend_write [[1, 2, 3, 4 :: real]] float32_2d [9, 9, 9, 9] ! buf float32_2d
      = [9, 9, 9, 9]"
  by (simp add: astra_data_def np_asarray_float32_C_def backend_write_def float32_2d_def)

end
